theory Spec2Isabelle
  imports Complex_Main
begin

section \<open>Python values seen by the handlers of \<^verbatim>\<open>main.py\<close>\<close>

text \<open>
  \<^verbatim>\<open>request.get_json()\<close> hands the handlers whatever JSON document the body holds.
  \<open>JNull\<close> is Python's \<open>None\<close>, the value of the document \<^verbatim>\<open>null\<close>. A JSON object
  keeps its members in the order of the text; a later member with the same key
  overrides an earlier one, as in the \<open>dict\<close> that the parser builds. Floating point numbers are modelled by the reals
  they denote (no NaN, no infinities): the handlers only store them and hand them
  back. A JSON integer is a Python \<open>int\<close>, of any size. Strings are lists of 8-bit characters.
\<close>

datatype json =
    JNull
  | JBool bool
  | JInt int
  | JFloat real
  | JStr string
  | JArr "json list"
  | JObj "(string \<times> json) list"

text \<open>The exceptions that the handlers can meet.\<close>

datatype exn =
    ValueError      \<comment> \<open>raised by \<open>strptime\<close> on a string that is not a date\<close>
  | TypeError       \<comment> \<open>an operation applied to a value of the wrong Python type\<close>
  | KeyError        \<comment> \<open>subscript of a dict with a key it does not have\<close>
  | DatabaseError   \<comment> \<open>any error of the database layer (a subclass of \<open>Exception\<close> only)\<close>
  | OverflowError   \<comment> \<open>an \<open>int\<close> too large for a float or for an integer of SQLite\<close>

definition bindE :: "exn + 'a \<Rightarrow> ('a \<Rightarrow> exn + 'b) \<Rightarrow> exn + 'b" where
  "bindE m f = (case m of Inl e \<Rightarrow> Inl e | Inr v \<Rightarrow> f v)"

text \<open>Truth value of a Python object, as used by \<^verbatim>\<open>not data\<close>.\<close>

fun truthy :: "json \<Rightarrow> bool" where
  "truthy JNull = False"
| "truthy (JBool b) = b"
| "truthy (JInt i) = (i \<noteq> 0)"
| "truthy (JFloat r) = (r \<noteq> 0)"
| "truthy (JStr s) = (s \<noteq> [])"
| "truthy (JArr xs) = (xs \<noteq> [])"
| "truthy (JObj kvs) = (kvs \<noteq> [])"

text \<open>\<^verbatim>\<open>needle in haystack\<close> on two strings: the needle occurs as a substring.\<close>

fun is_substring :: "string \<Rightarrow> string \<Rightarrow> bool" where
  "is_substring needle [] = (needle = [])"
| "is_substring needle (c # cs) =
     (take (length needle) (c # cs) = needle \<or> is_substring needle cs)"

text \<open>
  \<^verbatim>\<open>key in data\<close> for a string key: key membership for a dict, element membership
  for a list, substring test for a string; numbers, booleans and \<open>None\<close> are not
  iterable.
\<close>

fun py_contains :: "json \<Rightarrow> string \<Rightarrow> exn + bool" where
  "py_contains (JObj kvs) k = Inr (k \<in> set (map fst kvs))"
| "py_contains (JArr xs) k = Inr (JStr k \<in> set xs)"
| "py_contains (JStr s) k = Inr (is_substring k s)"
| "py_contains _ k = Inl TypeError"

text \<open>\<^verbatim>\<open>data[key]\<close> for a string key.\<close>

fun py_getitem :: "json \<Rightarrow> string \<Rightarrow> exn + json" where
  "py_getitem (JObj kvs) k =
     (case map_of (rev kvs) k of None \<Rightarrow> Inl KeyError | Some v \<Rightarrow> Inr v)"
| "py_getitem _ k = Inl TypeError"

section \<open>Dates: \<^verbatim>\<open>datetime.strptime(s, '%Y-%m-%d').date()\<close> and \<^verbatim>\<open>isoformat\<close>\<close>

record date =
  year :: nat
  month :: nat
  day :: nat

definition is_digit :: "char \<Rightarrow> bool" where
  "is_digit c = (c \<in> set ''0123456789'')"

definition digit_val :: "char \<Rightarrow> nat" where
  "digit_val c = of_char c - 48"

definition digit_char :: "nat \<Rightarrow> char" where
  "digit_char n = ''0123456789'' ! n"

text \<open>\<^verbatim>\<open>int(s)\<close> on the text of a regular expression group: digits, after an optional blank.\<close>

definition int_of_digits :: "string \<Rightarrow> nat" where
  "int_of_digits s = foldl (\<lambda>acc c. 10 * acc + digit_val c) 0 (filter is_digit s)"

text \<open>
  The format is compiled to the regular expression
  \<^verbatim>\<open>(?P<Y>\d\d\d\d)-(?P<m>1[0-2]|0[1-9]|[1-9])-(?P<d>3[0-1]|[1-2]\d|0[1-9]|[1-9]| [1-9])\<close>.
  Each matcher returns, in the order in which a backtracking matcher tries them, the
  ways in which its piece matches a prefix of the input: the matched text and the rest.
\<close>

definition one_of :: "string \<Rightarrow> char \<Rightarrow> bool" where
  "one_of cs c = (c \<in> set cs)"

definition re_Y :: "string \<Rightarrow> (string \<times> string) list" where
  "re_Y s = (case s of
       a # b # c # d # r \<Rightarrow>
         (if is_digit a \<and> is_digit b \<and> is_digit c \<and> is_digit d then [([a, b, c, d], r)] else [])
     | _ \<Rightarrow> [])"

definition re_two :: "string \<Rightarrow> string \<Rightarrow> string \<Rightarrow> (string \<times> string) list" where
  "re_two first second s = (case s of
       a # b # r \<Rightarrow> (if one_of first a \<and> one_of second b then [([a, b], r)] else [])
     | _ \<Rightarrow> [])"

definition re_one :: "string \<Rightarrow> string \<Rightarrow> (string \<times> string) list" where
  "re_one cls s = (case s of
       a # r \<Rightarrow> (if one_of cls a then [([a], r)] else [])
     | _ \<Rightarrow> [])"

definition re_dash :: "string \<Rightarrow> string list" where
  "re_dash s = (case s of a # r \<Rightarrow> (if a = CHR ''-'' then [r] else []) | _ \<Rightarrow> [])"

definition re_m :: "string \<Rightarrow> (string \<times> string) list" where
  "re_m s = re_two ''1'' ''012'' s @ re_two ''0'' ''123456789'' s @ re_one ''123456789'' s"

definition re_d :: "string \<Rightarrow> (string \<times> string) list" where
  "re_d s = re_two ''3'' ''01'' s @ re_two ''12'' ''0123456789'' s
          @ re_two ''0'' ''123456789'' s @ re_one ''123456789'' s
          @ re_two '' '' ''123456789'' s"

text \<open>All matches of the whole expression at the start of the input, best first.\<close>

definition re_matches :: "string \<Rightarrow> (string \<times> string \<times> string \<times> string) list" where
  "re_matches s =
     [(y, m, d, r5). (y, r1) \<leftarrow> re_Y s, r2 \<leftarrow> re_dash r1, (m, r3) \<leftarrow> re_m r2,
                     r4 \<leftarrow> re_dash r3, (d, r5) \<leftarrow> re_d r4]"

definition is_leap :: "nat \<Rightarrow> bool" where
  "is_leap y = (y mod 4 = 0 \<and> (y mod 100 \<noteq> 0 \<or> y mod 400 = 0))"

definition days_in_month :: "nat \<Rightarrow> nat \<Rightarrow> nat" where
  "days_in_month y m =
     (if m = 2 then (if is_leap y then 29 else 28)
      else if m \<in> {4, 6, 9, 11} then 30 else 31)"

text \<open>The range check of the \<^verbatim>\<open>date\<close> constructor (\<open>MINYEAR = 1\<close>, \<open>MAXYEAR = 9999\<close>).\<close>

definition valid_date :: "date \<Rightarrow> bool" where
  "valid_date d = (1 \<le> year d \<and> year d \<le> 9999 \<and> 1 \<le> month d \<and> month d \<le> 12
                   \<and> 1 \<le> day d \<and> day d \<le> days_in_month (year d) (month d))"

text \<open>
  \<open>strptime\<close> takes the first match, refuses input left over after it
  (\<open>unconverted data remains\<close>) and builds the date, which checks its ranges; every
  failure is a \<open>ValueError\<close>, here \<open>None\<close>.
\<close>

definition strptime :: "string \<Rightarrow> date option" where
  "strptime s = (case re_matches s of
       [] \<Rightarrow> None
     | (y, m, d, rest) # _ \<Rightarrow>
         (if rest \<noteq> [] then None
          else let dt = \<lparr>year = int_of_digits y, month = int_of_digits m,
                          day = int_of_digits d\<rparr>
               in if valid_date dt then Some dt else None))"

text \<open>The call of line 48 and line 94: a value that is not a string is a \<open>TypeError\<close>.\<close>

fun parse_dob :: "json \<Rightarrow> exn + date" where
  "parse_dob (JStr s) = (case strptime s of None \<Rightarrow> Inl ValueError | Some d \<Rightarrow> Inr d)"
| "parse_dob _ = Inl TypeError"

text \<open>Decimal digits of a number, and \<^verbatim>\<open>'%0wd' % n\<close>.\<close>

function decimal :: "nat \<Rightarrow> string" where
  "decimal n = (if n < 10 then [digit_char n] else decimal (n div 10) @ [digit_char (n mod 10)])"
  by pat_completeness auto
termination
  by (relation "measure (\<lambda>n. n)") auto

declare decimal.simps [simp del]

definition zero_pad :: "nat \<Rightarrow> nat \<Rightarrow> string" where
  "zero_pad w n = replicate (w - length (decimal n)) (CHR ''0'') @ decimal n"

text \<open>\<^verbatim>\<open>date.isoformat()\<close> is \<^verbatim>\<open>'%04d-%02d-%02d' % (year, month, day)\<close>.\<close>

definition isoformat :: "date \<Rightarrow> string" where
  "isoformat d = zero_pad 4 (year d) @ ''-'' @ zero_pad 2 (month d) @ ''-'' @ zero_pad 2 (day d)"

section \<open>The table of students and the session\<close>

text \<open>A row of the table declared by the class \<^verbatim>\<open>Student\<close> (lines 14 to 19).\<close>

record Student =
  student_id :: int
  first_name :: string
  last_name :: string
  dob :: date
  amount_due :: real

type_synonym table = "Student list"

text \<open>
  The rows are kept in the order of insertion. The primary key constraint of
  \<open>student_id\<close> is the property \<open>primary_key\<close> of a table.
\<close>

definition primary_key :: "table \<Rightarrow> bool" where
  "primary_key db = distinct (map student_id db)"

text \<open>
  A Python object of class \<^verbatim>\<open>Student\<close> before it is flushed: its attributes hold
  whatever the handler assigned. The handlers only ever assign a \<^verbatim>\<open>date\<close> to \<open>dob\<close>.
\<close>

record student_obj =
  obj_first_name :: json
  obj_last_name :: json
  obj_dob :: date
  obj_amount_due :: json

text \<open>
  What a column does with a Python value of a type other than its own is decided by
  SQLAlchemy and SQLite, not by \<^verbatim>\<open>main.py\<close>: a number offered to the text columns, a
  string or a boolean offered to \<open>amount_due\<close>. These conversions are a parameter of
  the model; each may store a converted value or raise.
\<close>

record coercions =
  text_of :: "json \<Rightarrow> exn + string"
  float_of :: "json \<Rightarrow> exn + real"

text \<open>
  \<^verbatim>\<open>db.String(50), nullable=False\<close>: a string is stored as it is (SQLite does not
  enforce the length), \<open>None\<close> violates the constraint, and a list or a dict cannot be
  bound to a statement.
\<close>

fun bind_text :: "coercions \<Rightarrow> json \<Rightarrow> exn + string" where
  "bind_text c (JStr s) = Inr s"
| "bind_text c JNull = Inl DatabaseError"
| "bind_text c (JArr xs) = Inl DatabaseError"
| "bind_text c (JObj kvs) = Inl DatabaseError"
| "bind_text c v = text_of c v"

text \<open>\<^verbatim>\<open>int.bit_length()\<close> of a natural number.\<close>

function bit_length :: "nat \<Rightarrow> nat" where
  "bit_length n = (if n = 0 then 0 else Suc (bit_length (n div 2)))"
  by pat_completeness auto
termination
  by (relation "measure (\<lambda>n. n)") auto

declare bit_length.simps [simp del]

text \<open>
  \<^verbatim>\<open>float(i)\<close> for a Python \<open>int\<close>: the double nearest to \<open>i\<close>. A double has 53
  significant bits; the bits of \<open>i\<close> beyond them are rounded off, to the nearest
  and to the even neighbour on a tie, and \<open>OverflowError\<close> is raised when the result
  does not fit a double.
\<close>

definition py_float :: "int \<Rightarrow> exn + real" where
  "py_float i =
     (let m = nat \<bar>i\<bar>;
          e = bit_length m - 53;
          q = m div 2 ^ e;
          r = m mod 2 ^ e;
          q' = (if 2 * r > 2 ^ e \<or> (2 * r = 2 ^ e \<and> odd q) then q + 1 else q);
          v = q' * 2 ^ e
      in if v \<ge> 2 ^ 1024 then Inl OverflowError
         else Inr (if i < 0 then - real v else real v))"

text \<open>
  \<^verbatim>\<open>db.Float, nullable=False\<close>: the value is converted with \<^verbatim>\<open>float\<close> and stored;
  \<open>None\<close> violates the constraint.
\<close>

fun bind_float :: "coercions \<Rightarrow> json \<Rightarrow> exn + real" where
  "bind_float c (JFloat r) = Inr r"
| "bind_float c (JInt i) = py_float i"
| "bind_float c JNull = Inl DatabaseError"
| "bind_float c (JArr xs) = Inl DatabaseError"
| "bind_float c (JObj kvs) = Inl DatabaseError"
| "bind_float c v = float_of c v"

text \<open>The object that \<^verbatim>\<open>Student.query.get\<close> builds from a row, and the row of an object.\<close>

definition load :: "Student \<Rightarrow> student_obj" where
  "load r = \<lparr>obj_first_name = JStr (first_name r), obj_last_name = JStr (last_name r),
             obj_dob = dob r, obj_amount_due = JFloat (amount_due r)\<rparr>"

definition flush :: "coercions \<Rightarrow> int \<Rightarrow> student_obj \<Rightarrow> exn + Student" where
  "flush c i obj =
     bindE (bind_text c (obj_first_name obj)) (\<lambda>fn.
     bindE (bind_text c (obj_last_name obj)) (\<lambda>ln.
     bindE (bind_float c (obj_amount_due obj)) (\<lambda>a.
       Inr \<lparr>student_id = i, first_name = fn, last_name = ln, dob = obj_dob obj,
            amount_due = a\<rparr>)))"

text \<open>
  SQLite gives a new row of a table with an integer primary key the identifier 1 in
  an empty table, and otherwise one more than the largest identifier in use. (Only
  when the largest 64-bit integer is in use does it look for another one; no sequence
  of requests brings the table there.)
\<close>

definition next_id :: "table \<Rightarrow> int" where
  "next_id db = (if db = [] then 1 else Max (set (map student_id db)) + 1)"

text \<open>The row that a \<^verbatim>\<open>SELECT\<close> by primary key finds.\<close>

definition query_get :: "table \<Rightarrow> int \<Rightarrow> Student option" where
  "query_get db sid = find (\<lambda>r. student_id r = sid) db"

text \<open>
  \<^verbatim>\<open>Student.query.get(student_id)\<close> hands the identifier of the URL to SQLite as a
  parameter of the \<^verbatim>\<open>SELECT\<close>. The URL converter \<^verbatim>\<open><int:student_id>\<close> accepts any
  sequence of digits; an integer that does not fit 64 bits cannot be bound, and the
  call raises \<open>OverflowError\<close>.
\<close>

definition bindable :: "int \<Rightarrow> bool" where
  "bindable i = (- (2 ^ 63) \<le> i \<and> i \<le> 2 ^ 63 - 1)"

definition session_get :: "table \<Rightarrow> int \<Rightarrow> exn + Student option" where
  "session_get db sid = (if bindable sid then Inr (query_get db sid) else Inl OverflowError)"

text \<open>
  \<^verbatim>\<open>db.session.add(new_student); db.session.commit()\<close>: the new table and the row as
  it reads after the commit. When the flush raises, nothing is written.
\<close>

definition add_commit :: "coercions \<Rightarrow> table \<Rightarrow> student_obj \<Rightarrow> exn + table \<times> Student" where
  "add_commit c db obj = bindE (flush c (next_id db) obj) (\<lambda>row. Inr (db @ [row], row))"

text \<open>\<^verbatim>\<open>db.session.commit()\<close> after the attributes of a loaded object were assigned.\<close>

definition update_commit ::
  "coercions \<Rightarrow> table \<Rightarrow> int \<Rightarrow> student_obj \<Rightarrow> exn + table \<times> Student" where
  "update_commit c db sid obj =
     bindE (flush c sid obj) (\<lambda>row.
       Inr (map (\<lambda>r. if student_id r = sid then row else r) db, row))"

text \<open>\<^verbatim>\<open>db.session.delete(student); db.session.commit()\<close>\<close>

definition delete_commit :: "table \<Rightarrow> int \<Rightarrow> table" where
  "delete_commit db sid = filter (\<lambda>r. student_id r \<noteq> sid) db"

section \<open>Responses\<close>

text \<open>
  A handler returns a JSON body with a status (200 when it gives none). An exception
  that leaves the handler is answered by Flask with status 500 and no JSON body
  (\<open>Crash\<close>). A request that Flask aborts itself is answered with the status of the
  abort and Flask's own error page (\<open>Abort\<close>).
\<close>

datatype response = Json json nat | Crash | Abort nat

fun status :: "response \<Rightarrow> nat" where
  "status (Json body code) = code"
| "status Crash = 500"
| "status (Abort code) = code"

definition message :: "string \<Rightarrow> json" where
  "message text = JObj [(''message'', JStr text)]"

definition error :: "string \<Rightarrow> json" where
  "error text = JObj [(''error'', JStr text)]"

text \<open>\<^verbatim>\<open>str(e)\<close>: the text of an exception is represented by the name of its class.\<close>

fun str_exn :: "exn \<Rightarrow> string" where
  "str_exn ValueError = ''ValueError''"
| "str_exn TypeError = ''TypeError''"
| "str_exn KeyError = ''KeyError''"
| "str_exn DatabaseError = ''DatabaseError''"
| "str_exn OverflowError = ''OverflowError''"

definition to_dict :: "Student \<Rightarrow> json" where
  "to_dict r = JObj [(''student_id'', JInt (student_id r)),
                     (''first_name'', JStr (first_name r)),
                     (''last_name'', JStr (last_name r)),
                     (''dob'', JStr (isoformat (dob r))),
                     (''amount_due'', JFloat (amount_due r))]"

text \<open>The error kinds of the specification, as the responses of the handlers.\<close>

definition MissingField :: response where
  "MissingField = Json (message ''Invalid input. Please provide all required fields.'') 400"

definition InvalidDateFormat :: response where
  "InvalidDateFormat = Json (message ''Invalid date format. Use YYYY-MM-DD.'') 400"

definition NotFound :: response where
  "NotFound = Json (message ''Student not found'') 404"

definition NoInput :: response where
  "NoInput = Json (message ''No data provided for update'') 400"

definition NoFilePart :: response where
  "NoFilePart = Json (error ''No file part'') 400"

definition NoFilename :: response where
  "NoFilename = Json (error ''No selected file'') 400"

definition InvalidFileType :: response where
  "InvalidFileType = Json (error ''Invalid file type'') 400"

section \<open>The handlers of the students\<close>

text \<open>
  Each handler takes the table and returns the table after the request with its
  response. A handler that returns without a commit leaves the table as it was: the
  session of the request is discarded with its pending changes.

  The functions of this section are the handlers for an identifier that SQLite can
  bind and for the value \<open>data\<close> that \<^verbatim>\<open>request.get_json()\<close> has returned. The next
  section adds what happens before: the lookup that raises, and the request that
  \<^verbatim>\<open>get_json\<close> aborts.
\<close>

text \<open>
  The condition of line 43,
  \<^verbatim>\<open>not data or 'first_name' not in data or 'last_name' not in data or 'dob' not in data or 'amount_due' not in data\<close>,
  evaluated from left to right.
\<close>

definition missing_required :: "json \<Rightarrow> exn + bool" where
  "missing_required data =
     (if \<not> truthy data then Inr True
      else bindE (py_contains data ''first_name'') (\<lambda>b1. if \<not> b1 then Inr True
      else bindE (py_contains data ''last_name'') (\<lambda>b2. if \<not> b2 then Inr True
      else bindE (py_contains data ''dob'') (\<lambda>b3. if \<not> b3 then Inr True
      else bindE (py_contains data ''amount_due'') (\<lambda>b4. Inr (\<not> b4))))))"

text \<open>The body of the \<^verbatim>\<open>try\<close> of \<^verbatim>\<open>create_student\<close>, lines 47 to 56.\<close>

definition create_try :: "coercions \<Rightarrow> table \<Rightarrow> json \<Rightarrow> exn + table \<times> Student" where
  "create_try c db data =
     bindE (py_getitem data ''dob'') (\<lambda>v.
     bindE (parse_dob v) (\<lambda>d.
     bindE (py_getitem data ''first_name'') (\<lambda>fn.
     bindE (py_getitem data ''last_name'') (\<lambda>ln.
     bindE (py_getitem data ''amount_due'') (\<lambda>a.
       add_commit c db \<lparr>obj_first_name = fn, obj_last_name = ln, obj_dob = d,
                         obj_amount_due = a\<rparr>)))))"

definition create_student :: "coercions \<Rightarrow> table \<Rightarrow> json \<Rightarrow> table \<times> response" where
  "create_student c db data =
     (case missing_required data of
        Inl e \<Rightarrow> (db, Crash)
      | Inr True \<Rightarrow> (db, MissingField)
      | Inr False \<Rightarrow>
          (case create_try c db data of
             Inr (db', new_student) \<Rightarrow>
               (db', Json (JObj [(''message'', JStr ''Student created!''),
                                 (''student'', to_dict new_student)]) 201)
           | Inl ValueError \<Rightarrow> (db, InvalidDateFormat)
           | Inl e \<Rightarrow> (db, Json (message (''Error creating student: '' @ str_exn e)) 500)))"

definition get_students :: "table \<Rightarrow> response" where
  "get_students db = Json (JObj [(''students'', JArr (map to_dict db))]) 200"

definition get_student :: "table \<Rightarrow> int \<Rightarrow> response" where
  "get_student db sid =
     (case query_get db sid of
        Some student \<Rightarrow> Json (JObj [(''student'', to_dict student)]) 200
      | None \<Rightarrow> NotFound)"

text \<open>One statement \<^verbatim>\<open>if key in data: student.attr = convert(data[key])\<close> of lines 89 to 96.\<close>

definition assign_if_present ::
  "json \<Rightarrow> string \<Rightarrow> (json \<Rightarrow> student_obj \<Rightarrow> exn + student_obj) \<Rightarrow> student_obj \<Rightarrow> exn + student_obj"
where
  "assign_if_present data k assign obj =
     bindE (py_contains data k) (\<lambda>present.
       if present then bindE (py_getitem data k) (\<lambda>v. assign v obj) else Inr obj)"

definition set_first_name :: "json \<Rightarrow> student_obj \<Rightarrow> exn + student_obj" where
  "set_first_name v obj = Inr (obj\<lparr>obj_first_name := v\<rparr>)"

definition set_last_name :: "json \<Rightarrow> student_obj \<Rightarrow> exn + student_obj" where
  "set_last_name v obj = Inr (obj\<lparr>obj_last_name := v\<rparr>)"

definition set_dob :: "json \<Rightarrow> student_obj \<Rightarrow> exn + student_obj" where
  "set_dob v obj = bindE (parse_dob v) (\<lambda>d. Inr (obj\<lparr>obj_dob := d\<rparr>))"

definition set_amount_due :: "json \<Rightarrow> student_obj \<Rightarrow> exn + student_obj" where
  "set_amount_due v obj = Inr (obj\<lparr>obj_amount_due := v\<rparr>)"

text \<open>Lines 89 to 96: the four assignments in their order.\<close>

definition assign_fields :: "json \<Rightarrow> student_obj \<Rightarrow> exn + student_obj" where
  "assign_fields data obj =
     bindE (assign_if_present data ''first_name'' set_first_name obj) (\<lambda>o1.
     bindE (assign_if_present data ''last_name'' set_last_name o1) (\<lambda>o2.
     bindE (assign_if_present data ''dob'' set_dob o2) (\<lambda>o3.
       assign_if_present data ''amount_due'' set_amount_due o3)))"

text \<open>The body of the \<^verbatim>\<open>try\<close> of \<^verbatim>\<open>update_student\<close>, lines 89 to 98.\<close>

definition update_try ::
  "coercions \<Rightarrow> table \<Rightarrow> int \<Rightarrow> Student \<Rightarrow> json \<Rightarrow> exn + table \<times> Student" where
  "update_try c db sid student data =
     bindE (assign_fields data (load student)) (\<lambda>obj. update_commit c db sid obj)"

definition update_student :: "coercions \<Rightarrow> table \<Rightarrow> int \<Rightarrow> json \<Rightarrow> table \<times> response" where
  "update_student c db sid data =
     (case query_get db sid of
        None \<Rightarrow> (db, NotFound)
      | Some student \<Rightarrow>
          if \<not> truthy data then (db, NoInput)
          else
            (case update_try c db sid student data of
               Inr (db', student') \<Rightarrow>
                 (db', Json (JObj [(''message'', JStr ''Student updated!''),
                                   (''student'', to_dict student')]) 200)
             | Inl ValueError \<Rightarrow> (db, InvalidDateFormat)
             | Inl e \<Rightarrow> (db, Json (message (''Error updating student: '' @ str_exn e)) 500)))"

definition delete_student :: "table \<Rightarrow> int \<Rightarrow> table \<times> response" where
  "delete_student db sid =
     (case query_get db sid of
        None \<Rightarrow> (db, NotFound)
      | Some student \<Rightarrow> (delete_commit db sid, Json (message ''Student deleted!'') 200))"

section \<open>The handlers as the routes run them\<close>

text \<open>
  What \<^verbatim>\<open>request.get_json()\<close> finds in a request: no JSON content type, a body that
  is not a JSON document, or a JSON document. In the first two cases Flask aborts the
  request, with status 415 and 400.
\<close>

datatype payload = NoJson | Malformed | Document json

fun get_json :: "payload \<Rightarrow> nat + json" where
  "get_json NoJson = Inl 415"
| "get_json Malformed = Inl 400"
| "get_json (Document data) = Inr data"


text \<open>\<^verbatim>\<open>GET /students/<int:student_id>\<close>: the lookup of line 72 is outside any \<^verbatim>\<open>try\<close>.\<close>

definition get_student_route :: "table \<Rightarrow> int \<Rightarrow> response" where
  "get_student_route db sid =
     (case session_get db sid of
        Inl e \<Rightarrow> Crash
      | Inr found \<Rightarrow> get_student db sid)"

text \<open>
  \<^verbatim>\<open>PUT /students/<int:student_id>\<close>: the lookup of line 80 and the test of line 81,
  then \<^verbatim>\<open>get_json\<close> at line 84, all before the \<^verbatim>\<open>try\<close>.
\<close>

definition update_student_route ::
  "coercions \<Rightarrow> table \<Rightarrow> int \<Rightarrow> payload \<Rightarrow> table \<times> response" where
  "update_student_route c db sid p =
     (case session_get db sid of
        Inl e \<Rightarrow> (db, Crash)
      | Inr None \<Rightarrow> (db, NotFound)
      | Inr (Some student) \<Rightarrow>
          (case get_json p of
             Inl code \<Rightarrow> (db, Abort code)
           | Inr data \<Rightarrow> update_student c db sid data))"

text \<open>\<^verbatim>\<open>DELETE /students/<int:student_id>\<close>: the lookup of line 108 is outside any \<^verbatim>\<open>try\<close>.\<close>

definition delete_student_route :: "table \<Rightarrow> int \<Rightarrow> table \<times> response" where
  "delete_student_route db sid =
     (case session_get db sid of
        Inl e \<Rightarrow> (db, Crash)
      | Inr found \<Rightarrow> delete_student db sid)"

section \<open>The upload handler\<close>

text \<open>An entry of \<^verbatim>\<open>request.files\<close>: the name the client sent and the bytes.\<close>

record file_storage =
  filename :: string
  stream :: string

text \<open>
  The files on disk, by path, and whether a path can be opened for writing (it
  cannot when its directory is missing, for instance).
\<close>

record filesystem =
  files :: "string \<rightharpoonup> string"
  can_open :: "string \<Rightarrow> bool"

text \<open>\<^verbatim>\<open>file.save(path)\<close>: \<open>None\<close> when opening the path raises.\<close>

definition file_save :: "filesystem \<Rightarrow> string \<Rightarrow> string \<Rightarrow> filesystem option" where
  "file_save fs path bytes =
     (if can_open fs path then Some (fs\<lparr>files := (files fs)(path \<mapsto> bytes)\<rparr>) else None)"

text \<open>\<^verbatim>\<open>os.path.join(a, b)\<close> on a POSIX system.\<close>

definition os_path_join :: "string \<Rightarrow> string \<Rightarrow> string" where
  "os_path_join a b =
     (if take 1 b = ''/'' then b
      else if a = [] \<or> last a = CHR ''/'' then a @ b
      else a @ ''/'' @ b)"

text \<open>\<^verbatim>\<open>str.lower()\<close>, which changes the letters A to Z among the characters below 128.\<close>

definition lower_char :: "char \<Rightarrow> char" where
  "lower_char c =
     (case map_of (zip ''ABCDEFGHIJKLMNOPQRSTUVWXYZ'' ''abcdefghijklmnopqrstuvwxyz'') c of
        Some l \<Rightarrow> l
      | None \<Rightarrow> c)"

definition lower :: "string \<Rightarrow> string" where
  "lower s = map lower_char s"

text \<open>\<^verbatim>\<open>s.rsplit(sep, 1)\<close>: split at the last separator, if there is one.\<close>

definition rsplit1 :: "char \<Rightarrow> string \<Rightarrow> string list" where
  "rsplit1 sep s =
     (if sep \<in> set s
      then [rev (tl (dropWhile (\<lambda>c. c \<noteq> sep) (rev s))), rev (takeWhile (\<lambda>c. c \<noteq> sep) (rev s))]
      else [s])"

definition ALLOWED_EXTENSIONS :: "string set" where
  "ALLOWED_EXTENSIONS = {''png'', ''jpg'', ''jpeg'', ''gif''}"

definition allowed_file :: "string \<Rightarrow> bool" where
  "allowed_file name =
     (CHR ''.'' \<in> set name \<and> lower (rsplit1 (CHR ''.'') name ! 1) \<in> ALLOWED_EXTENSIONS)"

text \<open>
  \<^verbatim>\<open>request.files\<close> is given by its entries, the first entry of a field name being
  the one that a subscript returns. A file object is true when its name is not empty.
\<close>

definition upload_file ::
  "filesystem \<Rightarrow> (string \<times> file_storage) list \<Rightarrow> filesystem \<times> response" where
  "upload_file fs request_files =
     (case map_of request_files ''file'' of
        None \<Rightarrow> (fs, NoFilePart)
      | Some file \<Rightarrow>
          if filename file = [] then (fs, NoFilename)
          else if filename file \<noteq> [] \<and> allowed_file (filename file) then
            (let path = os_path_join ''uploads'' (filename file)
             in case file_save fs path (stream file) of
                  None \<Rightarrow> (fs, Crash)
                | Some fs' \<Rightarrow> (fs', Json (message ''File uploaded successfully'') 200))
          else (fs, InvalidFileType))"

section \<open>Invariants of the table, and sequences of requests\<close>

text \<open>
  The invariants of the table: the primary key, and a valid date in every row. (That
  the four fields are present with their types is carried by the type of the rows.)
\<close>

definition store_invariant :: "table \<Rightarrow> bool" where
  "store_invariant db = (primary_key db \<and> (\<forall>r \<in> set db. valid_date (dob r)))"

text \<open>A string of the shape \<open>dddd-dd-dd\<close>: zero-padded year, month and day.\<close>

definition iso_shaped :: "string \<Rightarrow> bool" where
  "iso_shaped s =
     (length s = 10 \<and> list_all is_digit (take 4 s) \<and> s ! 4 = CHR ''-''
      \<and> list_all is_digit (take 2 (drop 5 s)) \<and> s ! 7 = CHR ''-''
      \<and> list_all is_digit (drop 8 s))"

text \<open>The float that a JSON number is stored as, when there is one.\<close>

fun float_value :: "json \<Rightarrow> real option" where
  "float_value (JInt i) = (case py_float i of Inr r \<Rightarrow> Some r | Inl e \<Rightarrow> None)"
| "float_value (JFloat r) = Some r"
| "float_value v = None"

text \<open>A request body with the four fields.\<close>

definition student_body :: "string \<Rightarrow> string \<Rightarrow> string \<Rightarrow> json \<Rightarrow> json" where
  "student_body fname lname d a =
     JObj [(''first_name'', JStr fname), (''last_name'', JStr lname), (''dob'', JStr d),
           (''amount_due'', a)]"

text \<open>A sequence of \<^verbatim>\<open>POST /students\<close> requests, with their responses.\<close>

fun create_many :: "coercions \<Rightarrow> table \<Rightarrow> json list \<Rightarrow> table \<times> response list" where
  "create_many c db [] = (db, [])"
| "create_many c db (body # bodies) =
     (let (db1, r) = create_student c db body;
          (db2, rs) = create_many c db1 bodies
      in (db2, r # rs))"

text \<open>An entry of a listing without the identifier that the store assigned.\<close>

definition without_id :: "json \<Rightarrow> json" where
  "without_id j =
     (case j of JObj kvs \<Rightarrow> JObj (filter (\<lambda>kv. fst kv \<noteq> ''student_id'') kvs) | _ \<Rightarrow> j)"

text \<open>
  The fields of a student as supplied (names, \<open>dob\<close> string, amount), the body that
  supplies them, and what a listing returns for them: the date in ISO form, the
  amount as a float.
\<close>

definition supplied_body :: "string \<times> string \<times> string \<times> json \<Rightarrow> json" where
  "supplied_body x = (case x of (fname, lname, d, a) \<Rightarrow> student_body fname lname d a)"

definition returned_body :: "string \<times> string \<times> string \<times> json \<Rightarrow> json" where
  "returned_body x =
     (case x of (fname, lname, d, a) \<Rightarrow>
        student_body fname lname (isoformat (the (strptime d))) (JFloat (the (float_value a))))"

definition well_typed_input :: "string \<times> string \<times> string \<times> json \<Rightarrow> bool" where
  "well_typed_input x =
     (case x of (fname, lname, d, a) \<Rightarrow> strptime d \<noteq> None \<and> float_value a \<noteq> None)"

section \<open>Values used in the examples\<close>

text \<open>A database layer that refuses every value of a foreign type.\<close>

definition refusing :: coercions where
  "refusing = \<lparr>text_of = (\<lambda>v. Inl DatabaseError), float_of = (\<lambda>v. Inl DatabaseError)\<rparr>"

definition ada :: Student where
  "ada = \<lparr>student_id = 1, first_name = ''Ada'', last_name = ''Lovelace'',
          dob = \<lparr>year = 1815, month = 12, day = 10\<rparr>, amount_due = 12\<rparr>"

definition bad_date_body :: "(string \<times> json) list" where
  "bad_date_body = [(''first_name'', JStr ''Alan''), (''last_name'', JStr ''Turing''),
                    (''dob'', JStr ''13-99-9999''), (''amount_due'', JFloat 3)]"

definition bad_date_update :: "(string \<times> json) list" where
  "bad_date_update = [(''first_name'', JStr ''Augusta''), (''dob'', JStr ''13-99-9999'')]"



text \<open>A disk on which every path can be written, and that holds no file yet.\<close>

definition open_disk :: filesystem where
  "open_disk = \<lparr>files = Map.empty, can_open = (\<lambda>path. True)\<rparr>"

definition empty_name_body :: "(string \<times> json) list" where
  "empty_name_body = [(''first_name'', JStr ''''), (''last_name'', JStr ''''),
                      (''dob'', JStr ''1912-06-23''), (''amount_due'', JFloat 3)]"

definition nameless :: Student where
  "nameless = \<lparr>student_id = 1, first_name = '''', last_name = '''',
               dob = \<lparr>year = 1912, month = 6, day = 23\<rparr>, amount_due = 3\<rparr>"

definition grace_body :: "(string \<times> json) list" where
  "grace_body = [(''first_name'', JStr ''Grace''), (''last_name'', JStr ''Hopper''),
                 (''dob'', JStr ''1906-12-09''), (''amount_due'', JFloat 7)]"

definition two_students :: "(string \<times> string \<times> string \<times> json) list" where
  "two_students = [(''Grace'', ''Hopper'', ''1906-12-09'', JFloat 7),
                   (''Alan'', ''Turing'', ''1912-06-23'', JInt 3)]"

definition short_date_row :: Student where
  "short_date_row = \<lparr>student_id = 1, first_name = ''Ada'', last_name = ''Lovelace'',
                     dob = \<lparr>year = 2000, month = 1, day = 5\<rparr>,
                     amount_due = 9007199254740992\<rparr>"

section \<open>Lookup, deletion and replacement of rows\<close>

lemma query_get_None_iff: "query_get db sid = None \<longleftrightarrow> sid \<notin> student_id ` set db"
  by (auto simp: query_get_def find_None_iff)

lemma query_get_SomeD: "query_get db sid = Some r \<Longrightarrow> r \<in> set db \<and> student_id r = sid"
  by (auto simp: query_get_def find_Some_iff)

lemma query_get_delete_commit: "query_get (delete_commit db sid) sid = None"
  by (auto simp: query_get_None_iff delete_commit_def)

lemma flush_load: "flush c (student_id r) (load r) = Inr r"
  by (simp add: flush_def load_def bindE_def)

lemma replace_same:
  assumes "primary_key db" and "r \<in> set db"
  shows "map (\<lambda>x. if student_id x = student_id r then r else x) db = db"
proof -
  have "inj_on student_id (set db)"
    using assms(1) by (simp add: primary_key_def distinct_map)
  then have "\<And>x. x \<in> set db \<Longrightarrow> student_id x = student_id r \<Longrightarrow> x = r"
    using assms(2) by (auto dest: inj_onD)
  then show ?thesis
    by (intro map_idI) auto
qed

lemma query_get_replace:
  assumes "query_get db sid = Some r" and "student_id row = sid"
  shows "query_get (map (\<lambda>x. if student_id x = sid then row else x) db) sid = Some row"
  using assms unfolding query_get_def
  by (induction db) (auto split: if_splits)

lemma assign_absent:
  "py_contains data k = Inr False \<Longrightarrow> assign_if_present data k f obj = Inr obj"
  by (simp add: assign_if_present_def bindE_def)

section \<open>The steps of the handlers\<close>

lemmas strptime_eval =
  strptime_def re_matches_def re_Y_def re_dash_def re_m_def re_d_def re_two_def re_one_def
  one_of_def is_digit_def int_of_digits_def digit_val_def valid_date_def days_in_month_def
  is_leap_def

lemma strptime_valid: "strptime s = Some d \<Longrightarrow> valid_date d"
  by (auto simp: strptime_def Let_def split: list.splits if_splits)

lemma parse_dob_valid: "parse_dob v = Inr d \<Longrightarrow> valid_date d"
  by (cases v) (auto split: option.splits dest: strptime_valid)

lemma bindE_Inr: "bindE m f = Inr y \<longleftrightarrow> (\<exists>x. m = Inr x \<and> f x = Inr y)"
  by (cases m) (simp_all add: bindE_def)

lemma assign_if_present_Inr:
  assumes "assign_if_present data k f obj = Inr obj'"
  shows "(py_contains data k = Inr False \<and> obj' = obj)
       \<or> (py_contains data k = Inr True \<and> (\<exists>v. py_getitem data k = Inr v \<and> f v obj = Inr obj'))"
  using assms by (auto simp: assign_if_present_def bindE_Inr split: if_splits)

lemma assign_fields_steps:
  assumes "assign_fields data obj = Inr obj'"
  obtains o1 o2 o3 where
    "assign_if_present data ''first_name'' set_first_name obj = Inr o1"
    "assign_if_present data ''last_name'' set_last_name o1 = Inr o2"
    "assign_if_present data ''dob'' set_dob o2 = Inr o3"
    "assign_if_present data ''amount_due'' set_amount_due o3 = Inr obj'"
  using assms unfolding assign_fields_def bindE_Inr by blast

lemma set_first_name_frame:
  assumes "assign_if_present data ''first_name'' set_first_name obj = Inr obj'"
  shows "obj_last_name obj' = obj_last_name obj \<and> obj_dob obj' = obj_dob obj
       \<and> obj_amount_due obj' = obj_amount_due obj
       \<and> (py_contains data ''first_name'' \<noteq> Inr True \<longrightarrow> obj_first_name obj' = obj_first_name obj)"
  using assign_if_present_Inr [OF assms] by (auto simp: set_first_name_def)

lemma set_last_name_frame:
  assumes "assign_if_present data ''last_name'' set_last_name obj = Inr obj'"
  shows "obj_first_name obj' = obj_first_name obj \<and> obj_dob obj' = obj_dob obj
       \<and> obj_amount_due obj' = obj_amount_due obj
       \<and> (py_contains data ''last_name'' \<noteq> Inr True \<longrightarrow> obj_last_name obj' = obj_last_name obj)"
  using assign_if_present_Inr [OF assms] by (auto simp: set_last_name_def)

lemma set_dob_frame:
  assumes "assign_if_present data ''dob'' set_dob obj = Inr obj'"
  shows "obj_first_name obj' = obj_first_name obj \<and> obj_last_name obj' = obj_last_name obj
       \<and> obj_amount_due obj' = obj_amount_due obj
       \<and> (py_contains data ''dob'' \<noteq> Inr True \<longrightarrow> obj_dob obj' = obj_dob obj)
       \<and> (valid_date (obj_dob obj) \<longrightarrow> valid_date (obj_dob obj'))"
  using assign_if_present_Inr [OF assms]
  by (auto simp: set_dob_def bindE_Inr dest: parse_dob_valid)

lemma set_amount_due_frame:
  assumes "assign_if_present data ''amount_due'' set_amount_due obj = Inr obj'"
  shows "obj_first_name obj' = obj_first_name obj \<and> obj_last_name obj' = obj_last_name obj
       \<and> obj_dob obj' = obj_dob obj
       \<and> (py_contains data ''amount_due'' \<noteq> Inr True \<longrightarrow> obj_amount_due obj' = obj_amount_due obj)"
  using assign_if_present_Inr [OF assms] by (auto simp: set_amount_due_def)

lemma assign_fields_frame:
  assumes "assign_fields data obj = Inr obj'"
  shows "(py_contains data ''first_name'' \<noteq> Inr True \<longrightarrow> obj_first_name obj' = obj_first_name obj)
       \<and> (py_contains data ''last_name'' \<noteq> Inr True \<longrightarrow> obj_last_name obj' = obj_last_name obj)
       \<and> (py_contains data ''dob'' \<noteq> Inr True \<longrightarrow> obj_dob obj' = obj_dob obj)
       \<and> (py_contains data ''amount_due'' \<noteq> Inr True \<longrightarrow> obj_amount_due obj' = obj_amount_due obj)
       \<and> (valid_date (obj_dob obj) \<longrightarrow> valid_date (obj_dob obj'))"
proof -
  from assms obtain o1 o2 o3 where
    s: "assign_if_present data ''first_name'' set_first_name obj = Inr o1"
      "assign_if_present data ''last_name'' set_last_name o1 = Inr o2"
      "assign_if_present data ''dob'' set_dob o2 = Inr o3"
      "assign_if_present data ''amount_due'' set_amount_due o3 = Inr obj'"
    by (rule assign_fields_steps)
  show ?thesis
    using set_first_name_frame [OF s(1)] set_last_name_frame [OF s(2)]
      set_dob_frame [OF s(3)] set_amount_due_frame [OF s(4)]
    by simp
qed

lemma flush_row:
  assumes "flush c i obj = Inr row"
  shows "student_id row = i \<and> dob row = obj_dob obj
       \<and> bind_text c (obj_first_name obj) = Inr (first_name row)
       \<and> bind_text c (obj_last_name obj) = Inr (last_name row)
       \<and> bind_float c (obj_amount_due obj) = Inr (amount_due row)"
  using assms unfolding flush_def bindE_def
  by (auto split: sum.splits)

lemma flush_dob: "flush c i obj = Inr row \<Longrightarrow> dob row = obj_dob obj"
  by (simp add: flush_row)

lemma flush_id: "flush c i obj = Inr row \<Longrightarrow> student_id row = i"
  by (simp add: flush_row)

lemma update_try_Inr:
  assumes "update_try c db sid r data = Inr (db', row)"
  shows "\<exists>obj. assign_fields data (load r) = Inr obj \<and> flush c sid obj = Inr row
           \<and> db' = map (\<lambda>x. if student_id x = sid then row else x) db"
  using assms unfolding update_try_def update_commit_def bindE_def
  by (auto split: sum.splits)

lemma update_student_cases:
  assumes "query_get db sid = Some r"
  shows "fst (update_student c db sid data) = db \<and> status (snd (update_student c db sid data)) \<noteq> 200
     \<or> (\<exists>obj row. assign_fields data (load r) = Inr obj \<and> flush c sid obj = Inr row
           \<and> update_student c db sid data =
               (map (\<lambda>x. if student_id x = sid then row else x) db,
                Json (JObj [(''message'', JStr ''Student updated!''),
                            (''student'', to_dict row)]) 200))"
proof (cases "truthy data")
  case False
  then show ?thesis using assms by (simp add: update_student_def NoInput_def)
next
  case True
  show ?thesis
  proof (cases "update_try c db sid r data")
    case (Inl e)
    then show ?thesis using assms True
      by (cases e) (simp_all add: update_student_def InvalidDateFormat_def)
  next
    case (Inr p)
    obtain db' row where p: "p = (db', row)" by (cases p)
    from update_try_Inr [OF Inr [unfolded p]] Inr p assms True show ?thesis
      by (auto simp: update_student_def)
  qed
qed

lemma create_try_Inr:
  assumes "create_try c db data = Inr (db', row)"
  shows "db' = db @ [row] \<and> student_id row = next_id db \<and> valid_date (dob row)"
  using assms unfolding create_try_def add_commit_def bindE_def
  by (auto split: sum.splits dest!: flush_row dest: parse_dob_valid)

lemma create_student_cases:
  "fst (create_student c db data) = db \<and> status (snd (create_student c db data)) \<noteq> 201
     \<or> (\<exists>row. student_id row = next_id db \<and> valid_date (dob row)
           \<and> create_student c db data =
               (db @ [row],
                Json (JObj [(''message'', JStr ''Student created!''),
                            (''student'', to_dict row)]) 201))"
proof (cases "missing_required data")
  case (Inl e)
  then show ?thesis by (simp add: create_student_def)
next
  case (Inr missing)
  show ?thesis
  proof (cases missing)
    case True
    with Inr show ?thesis by (simp add: create_student_def MissingField_def)
  next
    case False
    show ?thesis
    proof (cases "create_try c db data")
      case (Inl e)
      then show ?thesis using Inr False
        by (cases e) (simp_all add: create_student_def InvalidDateFormat_def)
    next
      case inr: (Inr p)
      obtain db' row where p: "p = (db', row)" by (cases p)
      from create_try_Inr [OF inr [unfolded p]] inr p Inr False show ?thesis
        by (auto simp: create_student_def)
    qed
  qed
qed

lemma getitem_contains:
  "py_getitem (JObj kvs) k = Inr v \<Longrightarrow> py_contains (JObj kvs) k = Inr True"
  by (auto split: option.splits dest!: map_of_SomeD intro: rev_image_eqI)

lemma contains_getitem:
  "k \<in> fst ` set kvs \<Longrightarrow> \<exists>v. py_getitem (JObj kvs) k = Inr v"
proof -
  assume "k \<in> fst ` set kvs"
  then have "k \<in> fst ` set (rev kvs)" by simp
  then have "map_of (rev kvs) k \<noteq> None" by (simp only: map_of_eq_None_iff not_not)
  then show ?thesis by auto
qed

lemma assign_if_present_total:
  assumes "\<And>v o0. \<exists>o1. f v o0 = Inr o1"
  shows "\<exists>o1. assign_if_present (JObj kvs) k f obj = Inr o1"
proof (cases "k \<in> fst ` set kvs")
  case True
  then obtain v where v: "py_getitem (JObj kvs) k = Inr v"
    using contains_getitem by blast
  obtain o1 where "f v obj = Inr o1" using assms by blast
  then show ?thesis
    using True v by (simp add: assign_if_present_def bindE_def del: py_getitem.simps)
next
  case False
  then show ?thesis by (simp add: assign_if_present_def bindE_def)
qed

lemma missing_required_JObj:
  "missing_required (JObj kvs) =
     Inr (\<not> (kvs \<noteq> [] \<and> ''first_name'' \<in> fst ` set kvs \<and> ''last_name'' \<in> fst ` set kvs
             \<and> ''dob'' \<in> fst ` set kvs \<and> ''amount_due'' \<in> fst ` set kvs))"
  by (simp add: missing_required_def bindE_def)


lemma strptime_turing:
  "strptime ''1912-06-23'' = Some \<lparr>year = 1912, month = 6, day = 23\<rparr>"
  by (simp add: strptime_eval)

section \<open>File names and their extensions\<close>

lemma rsplit1_extension:
  "CHR ''.'' \<in> set name \<Longrightarrow>
     rsplit1 (CHR ''.'') name ! 1 = rev (takeWhile (\<lambda>c. c \<noteq> CHR ''.'') (rev name))"
  by (simp add: rsplit1_def)

lemma split_at_last_dot:
  assumes "CHR ''.'' \<in> set name"
  shows "name = rev (tl (dropWhile (\<lambda>c. c \<noteq> CHR ''.'') (rev name))) @ ''.''
              @ rev (takeWhile (\<lambda>c. c \<noteq> CHR ''.'') (rev name))"
proof -
  let ?P = "\<lambda>c. c \<noteq> CHR ''.''"
  have "dropWhile ?P (rev name) \<noteq> []"
    using assms by (simp add: dropWhile_eq_Nil_conv)
  then obtain rest where d: "dropWhile ?P (rev name) = CHR ''.'' # rest"
    using hd_dropWhile [of ?P "rev name"] by (cases "dropWhile ?P (rev name)") auto
  have "rev name = takeWhile ?P (rev name) @ CHR ''.'' # rest"
    using takeWhile_dropWhile_id [of ?P "rev name"] d by simp
  then have "name = rev (takeWhile ?P (rev name) @ CHR ''.'' # rest)"
    by (metis rev_rev_ident)
  then show ?thesis by (simp add: d)
qed

lemma extension_of_split:
  assumes "name = stem @ ''.'' @ ext" and "CHR ''.'' \<notin> set ext"
  shows "rev (takeWhile (\<lambda>c. c \<noteq> CHR ''.'') (rev name)) = ext"
proof -
  have "rev name = rev ext @ CHR ''.'' # rev stem" using assms(1) by simp
  moreover have "takeWhile (\<lambda>c. c \<noteq> CHR ''.'') (rev ext @ CHR ''.'' # rev stem) = rev ext"
    using assms(2) by (auto simp: takeWhile_tail)
  ultimately show ?thesis by simp
qed

lemma allowed_file_iff:
  "allowed_file name \<longleftrightarrow>
     (\<exists>stem ext. name = stem @ ''.'' @ ext \<and> CHR ''.'' \<notin> set ext
        \<and> lower ext \<in> {''png'', ''jpg'', ''jpeg'', ''gif''})"
proof
  assume a: "allowed_file name"
  then have dot: "CHR ''.'' \<in> set name" by (simp add: allowed_file_def)
  let ?ext = "rev (takeWhile (\<lambda>c. c \<noteq> CHR ''.'') (rev name))"
  have "lower ?ext \<in> {''png'', ''jpg'', ''jpeg'', ''gif''}"
    using a dot by (simp only: allowed_file_def rsplit1_extension ALLOWED_EXTENSIONS_def)
  moreover have "CHR ''.'' \<notin> set ?ext"
    by (auto dest: set_takeWhileD)
  ultimately show "\<exists>stem ext. name = stem @ ''.'' @ ext \<and> CHR ''.'' \<notin> set ext
        \<and> lower ext \<in> {''png'', ''jpg'', ''jpeg'', ''gif''}"
    using split_at_last_dot [OF dot] by blast
next
  assume "\<exists>stem ext. name = stem @ ''.'' @ ext \<and> CHR ''.'' \<notin> set ext
        \<and> lower ext \<in> {''png'', ''jpg'', ''jpeg'', ''gif''}"
  then obtain stem ext where s: "name = stem @ ''.'' @ ext" "CHR ''.'' \<notin> set ext"
    and l: "lower ext \<in> {''png'', ''jpg'', ''jpeg'', ''gif''}" by blast
  have dot: "CHR ''.'' \<in> set name" using s(1) by simp
  show "allowed_file name"
    using dot l extension_of_split [OF s]
    by (simp only: allowed_file_def rsplit1_extension ALLOWED_EXTENSIONS_def simp_thms)
qed

lemma upload_file_present:
  assumes "map_of request_files ''file'' = Some f" and "filename f \<noteq> []"
  shows "snd (upload_file fs request_files) = InvalidFileType \<longleftrightarrow> \<not> allowed_file (filename f)"
  using assms
  by (simp add: upload_file_def Let_def InvalidFileType_def message_def error_def
      split: option.splits)

lemma allowed_photo_png: "allowed_file ''photo.png''"
  by (simp add: allowed_file_def rsplit1_def lower_def lower_char_def ALLOWED_EXTENSIONS_def)

lemma not_allowed_photo_exe: "\<not> allowed_file ''photo.exe''"
  by (simp add: allowed_file_def rsplit1_def lower_def lower_char_def ALLOWED_EXTENSIONS_def)

section \<open>The invariants of the table\<close>

lemma next_id_fresh: "next_id db \<notin> student_id ` set db"
proof (cases "db = []")
  case True
  then show ?thesis by simp
next
  case False
  have "\<And>i. i \<in> student_id ` set db \<Longrightarrow> i \<le> Max (student_id ` set db)"
    by (rule Max_ge) simp_all
  then have "Max (student_id ` set db) + 1 \<notin> student_id ` set db"
    by fastforce
  then show ?thesis using False by (simp add: next_id_def)
qed

lemma replace_keeps_ids:
  "student_id row = sid \<Longrightarrow>
     map student_id (map (\<lambda>x. if student_id x = sid then row else x) db) = map student_id db"
  by (induction db) auto

lemma delete_student_table:
  "fst (delete_student db sid) = filter (\<lambda>r. student_id r \<noteq> sid) db"
proof (cases "query_get db sid")
  case None
  then have "\<And>r. r \<in> set db \<Longrightarrow> student_id r \<noteq> sid"
    by (auto simp: query_get_None_iff)
  then have "filter (\<lambda>r. student_id r \<noteq> sid) db = db"
    by (simp add: filter_id_conv)
  then show ?thesis using None by (simp add: delete_student_def)
next
  case (Some r)
  then show ?thesis by (simp add: delete_student_def delete_commit_def)
qed

lemma update_student_table:
  assumes "\<forall>r \<in> set db. valid_date (dob r)"
  shows "fst (update_student c db sid data) = db
       \<or> (\<exists>row. student_id row = sid \<and> valid_date (dob row)
             \<and> fst (update_student c db sid data) =
                 map (\<lambda>x. if student_id x = sid then row else x) db)"
proof (cases "query_get db sid")
  case None
  then show ?thesis by (simp add: update_student_def)
next
  case (Some r)
  then have vr: "valid_date (dob r)" using assms query_get_SomeD by blast
  from update_student_cases [OF Some, of c data] show ?thesis
  proof (elim disjE exE conjE)
    assume "fst (update_student c db sid data) = db"
    then show ?thesis by simp
  next
    fix obj row
    assume a: "assign_fields data (load r) = Inr obj" and f: "flush c sid obj = Inr row"
      and u: "update_student c db sid data =
               (map (\<lambda>x. if student_id x = sid then row else x) db,
                Json (JObj [(''message'', JStr ''Student updated!''),
                            (''student'', to_dict row)]) 200)"
    have "valid_date (dob row)" "student_id row = sid"
      using assign_fields_frame [OF a] flush_row [OF f] vr by (simp_all add: load_def)
    then show ?thesis using u by auto
  qed
qed

lemma create_preserves_invariant:
  assumes "store_invariant db"
  shows "store_invariant (fst (create_student c db data))
       \<and> (\<exists>new. fst (create_student c db data) = db @ new \<and> length new \<le> 1)"
  using create_student_cases [of c db data]
proof (elim disjE exE conjE)
  assume "fst (create_student c db data) = db"
  then show ?thesis using assms by simp
next
  fix row
  assume i: "student_id row = next_id db" and v: "valid_date (dob row)"
    and c: "create_student c db data =
               (db @ [row],
                Json (JObj [(''message'', JStr ''Student created!''),
                            (''student'', to_dict row)]) 201)"
  have "student_id row \<notin> student_id ` set db" using next_id_fresh [of db] i by simp
  then show ?thesis
    using assms v by (auto simp: c store_invariant_def primary_key_def)
qed

lemma update_preserves_invariant:
  assumes "store_invariant db"
  shows "store_invariant (fst (update_student c db sid data))
       \<and> map student_id (fst (update_student c db sid data)) = map student_id db"
proof -
  have v: "\<forall>r \<in> set db. valid_date (dob r)" using assms by (simp add: store_invariant_def)
  from update_student_table [OF v, of c sid data] show ?thesis
  proof (elim disjE exE conjE)
    assume "fst (update_student c db sid data) = db"
    then show ?thesis using assms by simp
  next
    fix row
    assume i: "student_id row = sid" and vr: "valid_date (dob row)"
      and u: "fst (update_student c db sid data) =
                 map (\<lambda>x. if student_id x = sid then row else x) db"
    have ids: "map student_id (fst (update_student c db sid data)) = map student_id db"
      unfolding u using i by (rule replace_keeps_ids)
    have "\<forall>r \<in> set (fst (update_student c db sid data)). valid_date (dob r)"
      using v vr by (auto simp: u)
    then show ?thesis
      using assms ids by (simp add: store_invariant_def primary_key_def)
  qed
qed

lemma delete_preserves_invariant:
  assumes "store_invariant db"
  shows "store_invariant (fst (delete_student db sid))"
  using assms
  by (simp add: delete_student_table store_invariant_def primary_key_def distinct_map_filter)

lemma get_student_readable:
  "get_student db i = NotFound
   \<or> (\<exists>r \<in> set db. student_id r = i
         \<and> get_student db i =
             Json (JObj [(''student'',
                          JObj [(''student_id'', JInt i),
                                (''first_name'', JStr (first_name r)),
                                (''last_name'', JStr (last_name r)),
                                (''dob'', JStr (isoformat (dob r))),
                                (''amount_due'', JFloat (amount_due r))])]) 200)"
proof (cases "query_get db i")
  case None
  then show ?thesis by (simp add: get_student_def)
next
  case (Some r)
  then have "r \<in> set db" "student_id r = i" using query_get_SomeD by blast+
  then show ?thesis using Some by (auto simp: get_student_def to_dict_def)
qed

lemma store_invariant_ada: "store_invariant [ada]"
  by (simp add: store_invariant_def primary_key_def ada_def valid_date_def days_in_month_def)

section \<open>Digits: parsing and printing\<close>

lemma is_digit_val: "is_digit a \<Longrightarrow> digit_val a < 10 \<and> digit_char (digit_val a) = a"
  by (auto simp: is_digit_def digit_val_def digit_char_def)

lemma is_digit_not_dash: "is_digit a \<Longrightarrow> a \<noteq> CHR ''-'' \<and> a \<noteq> CHR '' ''"
  by (auto simp: is_digit_def)

lemma decimal_digit: "r < 10 \<Longrightarrow> decimal r = [digit_char r]"
  by (simp add: decimal.simps)

lemma decimal_step: "0 < q \<Longrightarrow> r < 10 \<Longrightarrow> decimal (10 * q + r) = decimal q @ [digit_char r]"
  by (subst decimal.simps) simp

lemma digit_char_0: "digit_char 0 = CHR ''0''"
  by (simp add: digit_char_def)

lemma replicate_small:
  "replicate 2 x = [x, x]" "replicate 3 x = [x, x, x]"
  by (simp_all add: numeral_2_eq_2 numeral_3_eq_3)

lemma decimal_2:
  assumes "0 < a" and "a < 10" and "b < 10"
  shows "decimal (10 * a + b) = [digit_char a, digit_char b]"
  using assms by (simp add: decimal_step decimal_digit)

lemma decimal_3:
  assumes "0 < a" and "a < 10" and "b < 10" and "c < 10"
  shows "decimal (10 * (10 * a + b) + c) = [digit_char a, digit_char b, digit_char c]"
proof -
  have "decimal (10 * (10 * a + b) + c) = decimal (10 * a + b) @ [digit_char c]"
    by (rule decimal_step) (use assms in simp_all)
  then show ?thesis by (simp only: decimal_2 [OF assms(1-3)] append.simps)
qed

lemma decimal_4:
  assumes "0 < a" and "a < 10" and "b < 10" and "c < 10" and "d < 10"
  shows "decimal (10 * (10 * (10 * a + b) + c) + d)
       = [digit_char a, digit_char b, digit_char c, digit_char d]"
proof -
  have "decimal (10 * (10 * (10 * a + b) + c) + d)
      = decimal (10 * (10 * a + b) + c) @ [digit_char d]"
    by (rule decimal_step) (use assms in simp_all)
  then show ?thesis by (simp only: decimal_3 [OF assms(1-4)] append.simps)
qed

lemma zero_pad_2:
  assumes "a < 10" and "b < 10"
  shows "zero_pad 2 (10 * a + b) = [digit_char a, digit_char b]"
proof (cases "a = 0")
  case True
  then show ?thesis
    using assms by (simp add: zero_pad_def decimal_digit digit_char_0)
next
  case False
  then have "decimal (10 * a + b) = [digit_char a, digit_char b]"
    using assms by (intro decimal_2) simp_all
  then show ?thesis by (simp add: zero_pad_def)
qed

lemma zero_pad_4:
  assumes "a < 10" and "b < 10" and "c < 10" and "d < 10"
  shows "zero_pad 4 (10 * (10 * (10 * a + b) + c) + d)
       = [digit_char a, digit_char b, digit_char c, digit_char d]"
proof -
  consider (four) "0 < a" | (three) "a = 0" "0 < b" | (two) "a = 0" "b = 0" "0 < c"
    | (one) "a = 0" "b = 0" "c = 0"
    by auto
  then show ?thesis
  proof cases
    case four
    have "decimal (10 * (10 * (10 * a + b) + c) + d)
        = [digit_char a, digit_char b, digit_char c, digit_char d]"
      using four assms by (intro decimal_4)
    then show ?thesis by (simp add: zero_pad_def)
  next
    case three
    have "decimal (10 * (10 * b + c) + d) = [digit_char b, digit_char c, digit_char d]"
      using three assms by (intro decimal_3)
    then show ?thesis
      using three by (simp add: zero_pad_def digit_char_0)
  next
    case two
    have "decimal (10 * c + d) = [digit_char c, digit_char d]"
      using two assms by (intro decimal_2)
    then show ?thesis
      using two by (simp add: zero_pad_def digit_char_0 replicate_small)
  next
    case one
    have "decimal d = [digit_char d]"
      using assms by (intro decimal_digit)
    then show ?thesis
      using one by (simp add: zero_pad_def digit_char_0 replicate_small)
  qed
qed

lemma int_of_digits_2:
  "is_digit a \<Longrightarrow> is_digit b \<Longrightarrow> int_of_digits [a, b] = 10 * digit_val a + digit_val b"
  by (simp add: int_of_digits_def)

lemma int_of_digits_4:
  "is_digit a \<Longrightarrow> is_digit b \<Longrightarrow> is_digit c \<Longrightarrow> is_digit d \<Longrightarrow>
     int_of_digits [a, b, c, d]
     = 10 * (10 * (10 * digit_val a + digit_val b) + digit_val c) + digit_val d"
  by (simp add: int_of_digits_def)

lemma zero_pad_digits_2:
  assumes "is_digit a" and "is_digit b"
  shows "zero_pad 2 (int_of_digits [a, b]) = [a, b]"
proof -
  note va = is_digit_val [OF assms(1)] and vb = is_digit_val [OF assms(2)]
  have "zero_pad 2 (int_of_digits [a, b])
      = [digit_char (digit_val a), digit_char (digit_val b)]"
    unfolding int_of_digits_2 [OF assms]
    by (rule zero_pad_2) (simp_all add: va vb)
  then show ?thesis by (simp add: va vb)
qed

lemma zero_pad_digits_4:
  assumes "is_digit a" and "is_digit b" and "is_digit c" and "is_digit d"
  shows "zero_pad 4 (int_of_digits [a, b, c, d]) = [a, b, c, d]"
proof -
  note va = is_digit_val [OF assms(1)] and vb = is_digit_val [OF assms(2)]
    and vc = is_digit_val [OF assms(3)] and vd = is_digit_val [OF assms(4)]
  have "zero_pad 4 (int_of_digits [a, b, c, d])
      = [digit_char (digit_val a), digit_char (digit_val b),
         digit_char (digit_val c), digit_char (digit_val d)]"
    unfolding int_of_digits_4 [OF assms]
    by (rule zero_pad_4) (simp_all add: va vb vc vd)
  then show ?thesis by (simp add: va vb vc vd)
qed

lemma strptime_iso_shape:
  assumes "is_digit y1" "is_digit y2" "is_digit y3" "is_digit y4"
    and "is_digit m1" "is_digit m2" "is_digit d1" "is_digit d2"
    and "strptime [y1, y2, y3, y4, CHR ''-'', m1, m2, CHR ''-'', d1, d2] = Some dt"
  shows "dt = \<lparr>year = int_of_digits [y1, y2, y3, y4], month = int_of_digits [m1, m2],
               day = int_of_digits [d1, d2]\<rparr>"
proof -
  have n: "m2 \<noteq> CHR ''-''" "\<not> one_of '' '' d1"
    using is_digit_not_dash [OF assms(6)] is_digit_not_dash [OF assms(7)]
    by (simp_all add: one_of_def)
  show ?thesis
    using assms(9) assms(1-4) n
    unfolding strptime_def re_matches_def re_Y_def re_dash_def re_m_def re_d_def
      re_two_def re_one_def
    by (auto simp: Let_def split: if_splits)
qed

section \<open>Dates of the shape \<open>dddd-dd-dd\<close>, and sequences of creations\<close>

lemma length_10E:
  assumes "length s = 10"
  obtains a0 a1 a2 a3 a4 a5 a6 a7 a8 a9 where "s = [a0, a1, a2, a3, a4, a5, a6, a7, a8, a9]"
proof -
  from assms have "length s = Suc (Suc (Suc (Suc (Suc (Suc (Suc (Suc (Suc (Suc 0)))))))))"
    by simp
  then show ?thesis
    using that by (auto simp: length_Suc_conv)
qed

lemma iso_shapedE:
  assumes "iso_shaped s"
  obtains y1 y2 y3 y4 m1 m2 d1 d2 where
    "s = [y1, y2, y3, y4, CHR ''-'', m1, m2, CHR ''-'', d1, d2]"
    "is_digit y1" "is_digit y2" "is_digit y3" "is_digit y4"
    "is_digit m1" "is_digit m2" "is_digit d1" "is_digit d2"
proof -
  from assms have "length s = 10" by (simp add: iso_shaped_def)
  then obtain a0 a1 a2 a3 a4 a5 a6 a7 a8 a9
    where s: "s = [a0, a1, a2, a3, a4, a5, a6, a7, a8, a9]" by (rule length_10E)
  show ?thesis
    using assms that [of a0 a1 a2 a3 a5 a6 a8 a9] unfolding s iso_shaped_def
    by simp
qed

lemma isoformat_strptime:
  assumes "iso_shaped s" and "strptime s = Some dt"
  shows "isoformat dt = s"
proof (rule iso_shapedE [OF assms(1)])
  fix y1 y2 y3 y4 m1 m2 d1 d2
  assume s: "s = [y1, y2, y3, y4, CHR ''-'', m1, m2, CHR ''-'', d1, d2]"
    and y: "is_digit y1" "is_digit y2" "is_digit y3" "is_digit y4"
    and m: "is_digit m1" "is_digit m2" and d: "is_digit d1" "is_digit d2"
  have p: "strptime [y1, y2, y3, y4, CHR ''-'', m1, m2, CHR ''-'', d1, d2] = Some dt"
    using assms(2) by (simp only: s)
  have dt: "dt = \<lparr>year = int_of_digits [y1, y2, y3, y4], month = int_of_digits [m1, m2],
              day = int_of_digits [d1, d2]\<rparr>"
    by (rule strptime_iso_shape [OF y m d p])
  have "isoformat dt = zero_pad 4 (int_of_digits [y1, y2, y3, y4]) @ ''-''
        @ zero_pad 2 (int_of_digits [m1, m2]) @ ''-'' @ zero_pad 2 (int_of_digits [d1, d2])"
    by (simp only: isoformat_def dt date.simps)
  also have "\<dots> = [y1, y2, y3, y4] @ ''-'' @ [m1, m2] @ ''-'' @ [d1, d2]"
    by (simp only: zero_pad_digits_4 [OF y] zero_pad_digits_2 [OF m] zero_pad_digits_2 [OF d])
  also have "\<dots> = s"
    by (simp only: s append.simps)
  finally show "isoformat dt = s" .
qed

lemma create_typed:
  assumes "strptime d = Some dt" and "float_value a = Some x"
  shows "create_student c db (student_body fname lname d a) =
           (db @ [\<lparr>student_id = next_id db, first_name = fname, last_name = lname, dob = dt,
                    amount_due = x\<rparr>],
            Json (JObj [(''message'', JStr ''Student created!''),
                        (''student'', to_dict \<lparr>student_id = next_id db, first_name = fname,
                                               last_name = lname, dob = dt, amount_due = x\<rparr>)]) 201)"
proof -
  have m: "missing_required (student_body fname lname d a) = Inr False"
    by (simp add: student_body_def missing_required_JObj)
  have b: "bind_float c a = Inr x"
    using assms(2) by (cases a) (simp_all split: sum.splits)
  have "create_try c db (student_body fname lname d a) =
          Inr (db @ [\<lparr>student_id = next_id db, first_name = fname, last_name = lname, dob = dt,
                      amount_due = x\<rparr>],
               \<lparr>student_id = next_id db, first_name = fname, last_name = lname, dob = dt,
                 amount_due = x\<rparr>)"
    using assms(1) b
    by (simp add: student_body_def create_try_def bindE_def add_commit_def flush_def)
  then show ?thesis using m by (simp add: create_student_def)
qed

lemma without_id_to_dict:
  "without_id (to_dict r) =
     student_body (first_name r) (last_name r) (isoformat (dob r)) (JFloat (amount_due r))"
  by (simp add: without_id_def to_dict_def student_body_def)

lemma create_many_length:
  "list_all (\<lambda>r. status r = 201) (snd (create_many c db bodies)) \<Longrightarrow>
     length (fst (create_many c db bodies)) = length db + length bodies"
proof (induction bodies arbitrary: db)
  case Nil
  then show ?case by simp
next
  case (Cons body bodies)
  let ?db1 = "fst (create_student c db body)"
  have s: "status (snd (create_student c db body)) = 201"
    and r: "list_all (\<lambda>r. status r = 201) (snd (create_many c ?db1 bodies))"
    using Cons.prems by (simp_all add: Let_def split_beta)
  have "length ?db1 = length db + 1"
    using create_student_cases [of c db body] s by auto
  moreover have "length (fst (create_many c ?db1 bodies)) = length ?db1 + length bodies"
    using r by (rule Cons.IH)
  ultimately show ?case by (simp add: Let_def split_beta)
qed

lemma create_many_typed:
  assumes "\<forall>x \<in> set xs. well_typed_input x"
  shows "\<exists>rows. fst (create_many c db (map supplied_body xs)) = db @ rows
           \<and> list_all (\<lambda>r. status r = 201) (snd (create_many c db (map supplied_body xs)))
           \<and> map (\<lambda>r. without_id (to_dict r)) rows = map returned_body xs"
  using assms
proof (induction xs arbitrary: db)
  case Nil
  then show ?case by simp
next
  case (Cons x xs)
  obtain fname lname d a where x: "x = (fname, lname, d, a)" by (cases x)
  from Cons.prems obtain dt v where p: "strptime d = Some dt" "float_value a = Some v"
    by (auto simp: x well_typed_input_def)
  let ?row = "\<lparr>student_id = next_id db, first_name = fname, last_name = lname, dob = dt,
                amount_due = v\<rparr>"
  have c1: "create_student c db (supplied_body x) =
      (db @ [?row], Json (JObj [(''message'', JStr ''Student created!''),
                               (''student'', to_dict ?row)]) 201)"
    unfolding x supplied_body_def prod.case by (rule create_typed [OF p])
  from Cons.prems have "\<forall>x \<in> set xs. well_typed_input x" by simp
  from Cons.IH [OF this, of "db @ [?row]"] obtain rows where
    f: "fst (create_many c (db @ [?row]) (map supplied_body xs)) = (db @ [?row]) @ rows"
    and s: "list_all (\<lambda>r. status r = 201) (snd (create_many c (db @ [?row]) (map supplied_body xs)))"
    and m: "map (\<lambda>r. without_id (to_dict r)) rows = map returned_body xs"
    by blast
  have w: "without_id (to_dict ?row) = returned_body x"
    by (simp add: without_id_to_dict returned_body_def x p)
  show ?case
    using f s m w by (intro exI [of _ "?row # rows"]) (simp add: c1 split_beta)
qed

lemma strptime_hopper:
  "strptime ''1906-12-09'' = Some \<lparr>year = 1906, month = 12, day = 9\<rparr>"
  by (simp add: strptime_eval)

lemma strptime_short:
  "strptime ''2000-1-5'' = Some \<lparr>year = 2000, month = 1, day = 5\<rparr>"
  by (simp add: strptime_eval)

section \<open>Conversion of integers to floats\<close>

lemma bit_length_0: "bit_length 0 = 0"
  by (subst bit_length.simps) simp

lemma bit_length_pos: "0 < n \<Longrightarrow> bit_length n = Suc (bit_length (n div 2))"
  by (subst bit_length.simps) simp

lemma bit_length_le: "n < 2 ^ k \<Longrightarrow> bit_length n \<le> k"
proof (induction k arbitrary: n)
  case 0
  then have "n = 0" by simp
  then show ?case by (simp only: bit_length_0)
next
  case (Suc k)
  show ?case
  proof (cases "n = 0")
    case True
    then show ?thesis by (simp add: bit_length_0)
  next
    case False
    have "n div 2 < 2 ^ k" using Suc.prems by simp
    then have "bit_length (n div 2) \<le> k" by (rule Suc.IH)
    then show ?thesis using False by (simp add: bit_length_pos)
  qed
qed

lemma py_float_exact:
  assumes "\<bar>i\<bar> < 2 ^ 53"
  shows "py_float i = Inr (of_int i)"
proof -
  let ?m = "nat \<bar>i\<bar>"
  have m: "?m < 2 ^ 53" using assms by (simp add: nat_less_iff)
  then have "bit_length ?m \<le> 53" by (rule bit_length_le)
  then have e: "bit_length ?m - 53 = 0" by simp
  have "(2 :: nat) ^ 53 \<le> 2 ^ 1024" by (rule power_increasing) simp_all
  then have big: "\<not> (2 :: nat) ^ 1024 \<le> ?m" using m by linarith
  have v: "(if i < 0 then - real ?m else real ?m) = of_int i" by simp
  have "py_float i = (if (2 :: nat) ^ 1024 \<le> ?m then Inl OverflowError
                      else Inr (if i < 0 then - real ?m else real ?m))"
    unfolding py_float_def Let_def e by simp
  then show ?thesis by (simp only: big v if_False)
qed

lemma bit_length_gt: "2 ^ k \<le> n \<Longrightarrow> k < bit_length n"
proof (induction k arbitrary: n)
  case 0
  then have "0 < n" by simp
  then show ?case by (simp add: bit_length_pos)
next
  case (Suc k)
  then have "0 < n" by (metis less_le_trans zero_less_numeral zero_less_power)
  have "2 ^ k \<le> n div 2" using Suc.prems by simp
  then have "k < bit_length (n div 2)" by (rule Suc.IH)
  then show ?case using \<open>0 < n\<close> by (simp add: bit_length_pos)
qed

lemma bit_length_rounded: "bit_length 9007199254740993 = 54"
proof -
  have "bit_length 9007199254740993 \<le> 54" by (rule bit_length_le) simp
  moreover have "53 < bit_length 9007199254740993" by (rule bit_length_gt) simp
  ultimately show ?thesis by simp
qed

lemma py_float_rounds: "py_float 9007199254740993 = Inr 9007199254740992"
proof -
  have n: "nat \<bar>9007199254740993 :: int\<bar> = 9007199254740993" by simp
  have big: "\<not> (2 :: nat) ^ 1024 \<le> 9007199254740992" by simp
  show ?thesis
    unfolding py_float_def Let_def n bit_length_rounded using big by simp
qed

lemma float_value_small: "\<bar>i\<bar> < 2 ^ 53 \<Longrightarrow> float_value (JInt i) = Some (of_int i)"
  by (simp add: py_float_exact)

lemma float_value_rounds: "float_value (JInt 9007199254740993) = Some 9007199254740992"
  by (simp add: py_float_rounds)

section \<open>The routes, and the handlers on their rejections\<close>


lemma session_get_bindable: "bindable sid \<Longrightarrow> session_get db sid = Inr (query_get db sid)"
  by (simp add: session_get_def)

lemma delete_student_route_bindable:
  "bindable sid \<Longrightarrow> delete_student_route db sid = delete_student db sid"
  by (simp add: delete_student_route_def session_get_bindable)

lemma get_student_route_bindable:
  "bindable sid \<Longrightarrow> get_student_route db sid = get_student db sid"
  by (simp add: get_student_route_def session_get_bindable)

lemma update_student_route_absent:
  "bindable sid \<Longrightarrow> sid \<notin> student_id ` set db \<Longrightarrow>
     update_student_route c db sid p = (db, NotFound)"
  by (simp add: update_student_route_def session_get_bindable query_get_None_iff [THEN iffD2])

lemma update_student_route_present:
  assumes "bindable sid" and "sid \<in> student_id ` set db"
  shows "update_student_route c db sid p =
           (case get_json p of Inl code \<Rightarrow> (db, Abort code)
            | Inr data \<Rightarrow> update_student c db sid data)"
proof -
  have "query_get db sid \<noteq> None" using assms(2) by (simp add: query_get_None_iff)
  then obtain r where "query_get db sid = Some r" by blast
  then show ?thesis
    using assms(1) by (simp add: update_student_route_def session_get_bindable)
qed

lemma not_bindable_2_63: "\<not> bindable 9223372036854775808"
  by (simp add: bindable_def)

lemma bindable_1: "bindable 1"
  by (simp add: bindable_def)

lemma delete_student_then_not_found:
  "(sid \<in> student_id ` set db \<longrightarrow>
      status (snd (delete_student db sid)) = 200
      \<and> sid \<notin> student_id ` set (fst (delete_student db sid))
      \<and> get_student (fst (delete_student db sid)) sid = NotFound
      \<and> delete_student (fst (delete_student db sid)) sid = (fst (delete_student db sid), NotFound))
   \<and> (sid \<notin> student_id ` set db \<longrightarrow> delete_student db sid = (db, NotFound))
   \<and> status NotFound = 404"
proof (intro conjI impI)
  assume "sid \<in> student_id ` set db"
  then have "query_get db sid \<noteq> None" by (simp add: query_get_None_iff)
  then obtain r where r: "query_get db sid = Some r" by blast
  then have d: "delete_student db sid =
      (delete_commit db sid, Json (message ''Student deleted!'') 200)"
    by (simp add: delete_student_def)
  have f: "fst (delete_student db sid) = delete_commit db sid" by (simp add: d)
  show "status (snd (delete_student db sid)) = 200" by (simp add: d)
  show "sid \<notin> student_id ` set (fst (delete_student db sid))"
    by (auto simp: d delete_commit_def)
  show "get_student (fst (delete_student db sid)) sid = NotFound"
    by (simp add: d get_student_def query_get_delete_commit)
  show "delete_student (fst (delete_student db sid)) sid = (fst (delete_student db sid), NotFound)"
    unfolding f by (simp add: delete_student_def query_get_delete_commit)
next
  assume "sid \<notin> student_id ` set db"
  then have "query_get db sid = None" by (simp add: query_get_None_iff)
  then show "delete_student db sid = (db, NotFound)" by (simp add: delete_student_def)
qed (simp add: NotFound_def)

lemma update_student_rejections:
  "(sid \<notin> student_id ` set db \<longrightarrow>
      update_student c db sid data = (db, NotFound) \<and> status NotFound = 404)
   \<and> (sid \<in> student_id ` set db \<and> \<not> truthy data \<longrightarrow>
      update_student c db sid data = (db, NoInput) \<and> status NoInput = 400)"
proof (intro conjI impI)
  assume "sid \<notin> student_id ` set db"
  then have "query_get db sid = None" by (simp add: query_get_None_iff)
  then show "update_student c db sid data = (db, NotFound)"
    by (simp add: update_student_def)
next
  assume a: "sid \<in> student_id ` set db \<and> \<not> truthy data"
  then have "query_get db sid \<noteq> None" by (simp add: query_get_None_iff)
  then obtain r where "query_get db sid = Some r" by blast
  with a show "update_student c db sid data = (db, NoInput)"
    by (simp add: update_student_def)
qed (simp_all add: NotFound_def NoInput_def)


section \<open>Update: the rejected requests\<close>

text \<open>
  Claim C8, as the code has it. For an identifier that SQLite can bind and that no
  row of the table has, the update answers \<open>NotFound\<close> (404), whatever the request
  carries. When the identifier exists and the payload is an empty JSON document (a
  value that Python takes for false, such as \<open>null\<close> and the empty object), it
  answers \<open>NoInput\<close> (400). When the identifier exists and the request carries no
  JSON document, \<^verbatim>\<open>get_json\<close> aborts the request, with 415 or 400. In all these cases
  the table that is returned is the table that was given.
\<close>

theorem update_route_rejections:
  "(bindable sid \<and> sid \<notin> student_id ` set db \<longrightarrow>
      update_student_route c db sid p = (db, NotFound) \<and> status NotFound = 404)
   \<and> (bindable sid \<and> sid \<in> student_id ` set db \<and> \<not> truthy data \<longrightarrow>
      update_student_route c db sid (Document data) = (db, NoInput) \<and> status NoInput = 400)
   \<and> (bindable sid \<and> sid \<in> student_id ` set db \<longrightarrow>
      update_student_route c db sid NoJson = (db, Abort 415)
      \<and> update_student_route c db sid Malformed = (db, Abort 400))"
proof (intro conjI impI)
  assume "bindable sid \<and> sid \<notin> student_id ` set db"
  then show "update_student_route c db sid p = (db, NotFound)"
    by (simp add: update_student_route_absent)
next
  assume a: "bindable sid \<and> sid \<in> student_id ` set db \<and> \<not> truthy data"
  then have "update_student_route c db sid (Document data) = update_student c db sid data"
    by (simp add: update_student_route_present)
  also have "\<dots> = (db, NoInput)"
    using a update_student_rejections [of sid db c data] by blast
  finally show "update_student_route c db sid (Document data) = (db, NoInput)" .
next
  assume a: "bindable sid \<and> sid \<in> student_id ` set db"
  then show "update_student_route c db sid NoJson = (db, Abort 415)"
    by (simp add: update_student_route_present)
  from a show "update_student_route c db sid Malformed = (db, Abort 400)"
    by (simp add: update_student_route_present)
qed (simp_all add: NotFound_def NoInput_def)

theorem update_route_rejections_witness:
  "(bindable 7 \<and> 7 \<notin> student_id ` set [ada]
      \<and> update_student_route refusing [ada] 7 (Document (JObj [(''first_name'', JStr ''Grace'')]))
          = ([ada], NotFound))
   \<and> (bindable 1 \<and> 1 \<in> student_id ` set [ada] \<and> \<not> truthy (JObj [])
      \<and> update_student_route refusing [ada] 1 (Document (JObj [])) = ([ada], NoInput))
   \<and> (\<not> truthy JNull
      \<and> update_student_route refusing [ada] 1 (Document JNull) = ([ada], NoInput))
   \<and> update_student_route refusing [ada] 1 Malformed = ([ada], Abort 400)"
proof -
  have b7: "bindable 7 \<and> 7 \<notin> student_id ` set [ada]" by (simp add: bindable_def ada_def)
  have b1: "bindable 1 \<and> 1 \<in> student_id ` set [ada]" by (simp add: bindable_def ada_def)
  have e1: "bindable 1 \<and> 1 \<in> student_id ` set [ada] \<and> \<not> truthy (JObj [])"
    using b1 by simp
  have e2: "bindable 1 \<and> 1 \<in> student_id ` set [ada] \<and> \<not> truthy JNull"
    using b1 by simp
  note t1 = update_route_rejections
    [of 7 "[ada]" refusing "Document (JObj [(''first_name'', JStr ''Grace'')])" JNull]
  note t2 = update_route_rejections [of 1 "[ada]" refusing NoJson "JObj []"]
  note t3 = update_route_rejections [of 1 "[ada]" refusing NoJson JNull]
  have r1: "update_student_route refusing [ada] 7 (Document (JObj [(''first_name'', JStr ''Grace'')]))
          = ([ada], NotFound)"
    using t1 [THEN conjunct1, THEN mp, OF b7] by (rule conjunct1)
  have r2: "update_student_route refusing [ada] 1 (Document (JObj [])) = ([ada], NoInput)"
    using t2 [THEN conjunct2, THEN conjunct1, THEN mp, OF e1] by (rule conjunct1)
  have r3: "update_student_route refusing [ada] 1 (Document JNull) = ([ada], NoInput)"
    using t3 [THEN conjunct2, THEN conjunct1, THEN mp, OF e2] by (rule conjunct1)
  have r4: "update_student_route refusing [ada] 1 Malformed = ([ada], Abort 400)"
    using t2 [THEN conjunct2, THEN conjunct2, THEN mp, OF b1] by (rule conjunct2)
  show ?thesis
    using b7 e1 e2 r1 r2 r3 r4 by blast
qed

text \<open>
  The claim as the specification states it fails. A request for an existing student
  that carries no payload is aborted by \<^verbatim>\<open>get_json\<close> with status 415, before the test
  of line 85, and is not answered with \<open>NoInput\<close>. (And for the identifier \<open>2\<^sup>6\<^sup>3\<close>,
  which no record has, the lookup of line 80 raises, and the answer is 500.)
\<close>

theorem update_absent_payload_aborted:
  "1 \<in> student_id ` set [ada]
   \<and> update_student_route refusing [ada] 1 NoJson = ([ada], Abort 415)
   \<and> Abort 415 \<noteq> NoInput \<and> status (Abort 415) = 415
   \<and> 9223372036854775808 \<notin> student_id ` set [ada]
   \<and> update_student_route refusing [ada] 9223372036854775808 (Document (JObj []))
       = ([ada], Crash)
   \<and> Crash \<noteq> NotFound \<and> status Crash = 500"
  by (simp add: update_student_route_def session_get_def not_bindable_2_63 bindable_1
      query_get_def ada_def NoInput_def NotFound_def)

section \<open>Delete\<close>

text \<open>
  For an identifier that SQLite can bind, delete does what the specification says:
  after a successful delete, get and a second delete answer \<open>NotFound\<close>, and a delete
  of an identifier that is not in the table answers \<open>NotFound\<close>.
\<close>

lemma delete_route_then_not_found:
  assumes "bindable sid"
  shows "(sid \<in> student_id ` set db \<longrightarrow>
      status (snd (delete_student_route db sid)) = 200
      \<and> get_student_route (fst (delete_student_route db sid)) sid = NotFound
      \<and> delete_student_route (fst (delete_student_route db sid)) sid
          = (fst (delete_student_route db sid), NotFound))
   \<and> (sid \<notin> student_id ` set db \<longrightarrow> delete_student_route db sid = (db, NotFound))"
  using delete_student_then_not_found [of sid db]
  by (simp only: delete_student_route_bindable [OF assms] get_student_route_bindable [OF assms])
    blast

text \<open>
  Claim C4 says that a delete of an identifier that was never present answers
  \<open>NotFound\<close> (404), for every identifier. The route accepts any sequence of digits;
  for the identifier \<open>2\<^sup>6\<^sup>3\<close>, which no record has, the lookup of line 108 raises
  before the test of line 109, and the request is answered with status 500.
\<close>

theorem delete_unbindable_id:
  "9223372036854775808 \<notin> student_id ` set [ada]
   \<and> delete_student_route [ada] 9223372036854775808 = ([ada], Crash)
   \<and> get_student_route [ada] 9223372036854775808 = Crash
   \<and> status Crash = 500 \<and> Crash \<noteq> NotFound"
  by (simp add: delete_student_route_def get_student_route_def session_get_def
      not_bindable_2_63 ada_def NotFound_def)

section \<open>Update: a payload without any of the four keys\<close>

text \<open>
  Claim C10. In a table that satisfies its primary key constraint, an update of an
  existing student whose payload is a JSON object that is not empty and has none of
  the keys \<open>first_name\<close>, \<open>last_name\<close>, \<open>dob\<close>, \<open>amount_due\<close> is not rejected as
  \<open>NoInput\<close>: it answers 200 with the record as it was, and the table is unchanged.
\<close>

theorem update_without_known_keys:
  assumes "primary_key db" and "query_get db sid = Some r" and "kvs \<noteq> []"
    and "\<forall>k \<in> {''first_name'', ''last_name'', ''dob'', ''amount_due''}. k \<notin> fst ` set kvs"
  shows "update_student c db sid (JObj kvs) =
           (db, Json (JObj [(''message'', JStr ''Student updated!''),
                            (''student'', to_dict r)]) 200)"
proof -
  have a: "assign_fields (JObj kvs) (load r) = Inr (load r)"
    using assms(4) by (simp add: assign_fields_def assign_absent bindE_def)
  have r: "r \<in> set db" "student_id r = sid"
    using query_get_SomeD [OF assms(2)] by simp_all
  have "update_commit c db sid (load r) = Inr (db, r)"
    using replace_same [OF assms(1) r(1)] flush_load [of c r] r(2)
    by (simp add: update_commit_def bindE_def)
  then show ?thesis
    using assms(2,3) a by (simp add: update_student_def update_try_def bindE_def)
qed

theorem update_without_known_keys_witness:
  "primary_key [ada] \<and> query_get [ada] 1 = Some ada \<and> [(''nickname'', JStr ''Countess'')] \<noteq> []
   \<and> ''first_name'' \<notin> fst ` set [(''nickname'', JStr ''Countess'')]
   \<and> ''last_name'' \<notin> fst ` set [(''nickname'', JStr ''Countess'')]
   \<and> ''dob'' \<notin> fst ` set [(''nickname'', JStr ''Countess'')]
   \<and> ''amount_due'' \<notin> fst ` set [(''nickname'', JStr ''Countess'')]
   \<and> update_student refusing [ada] 1 (JObj [(''nickname'', JStr ''Countess'')]) =
       ([ada], Json (JObj [(''message'', JStr ''Student updated!''),
                           (''student'', to_dict ada)]) 200)
   \<and> Json (JObj [(''message'', JStr ''Student updated!''), (''student'', to_dict ada)]) 200 \<noteq> NoInput"
proof -
  have h1: "primary_key [ada]" by (simp add: primary_key_def)
  have h2: "query_get [ada] 1 = Some ada" by (simp add: query_get_def ada_def)
  have h3: "[(''nickname'', JStr ''Countess'')] \<noteq> []" by simp
  have h4: "\<forall>k \<in> {''first_name'', ''last_name'', ''dob'', ''amount_due''}.
      k \<notin> fst ` set [(''nickname'', JStr ''Countess'')]" by simp
  show ?thesis
    using h1 h2 h4 update_without_known_keys [OF h1 h2 h3 h4, of refusing]
    by (simp add: NoInput_def)
qed

section \<open>Update: the fields that the payload omits\<close>

text \<open>
  Claim C1. For every existing student and every payload, after \<^verbatim>\<open>update_student\<close>
  the table still has a record under the identifier, and each of \<open>first_name\<close>,
  \<open>last_name\<close>, \<open>dob\<close>, \<open>amount_due\<close> that the payload does not contain has the value
  it had before; \<open>student_id\<close> is unchanged; a response with status 200 carries that
  record. In particular an update with only \<open>amount_due\<close> succeeds and replaces the
  record by itself with the new amount, so that \<open>first_name\<close>, \<open>last_name\<close> and
  \<open>dob\<close> are unchanged.
\<close>

theorem update_keeps_omitted_fields:
  assumes "query_get db sid = Some r"
  shows "(\<exists>r'. query_get (fst (update_student c db sid data)) sid = Some r'
      \<and> student_id r' = student_id r
      \<and> (py_contains data ''first_name'' \<noteq> Inr True \<longrightarrow> first_name r' = first_name r)
      \<and> (py_contains data ''last_name'' \<noteq> Inr True \<longrightarrow> last_name r' = last_name r)
      \<and> (py_contains data ''dob'' \<noteq> Inr True \<longrightarrow> dob r' = dob r)
      \<and> (py_contains data ''amount_due'' \<noteq> Inr True \<longrightarrow> amount_due r' = amount_due r)
      \<and> (status (snd (update_student c db sid data)) = 200 \<longrightarrow>
           snd (update_student c db sid data) =
             Json (JObj [(''message'', JStr ''Student updated!''), (''student'', to_dict r')]) 200))
    \<and> (\<forall>x. update_student c db sid (JObj [(''amount_due'', JFloat x)]) =
          (map (\<lambda>s. if student_id s = sid then r\<lparr>amount_due := x\<rparr> else s) db,
           Json (JObj [(''message'', JStr ''Student updated!''),
                       (''student'', to_dict (r\<lparr>amount_due := x\<rparr>))]) 200)
        \<and> query_get (fst (update_student c db sid (JObj [(''amount_due'', JFloat x)]))) sid =
            Some (r\<lparr>amount_due := x\<rparr>))"
proof (intro conjI allI)
  have sid: "student_id r = sid" using query_get_SomeD [OF assms] by simp
  from update_student_cases [OF assms, of c data]
  show "\<exists>r'. query_get (fst (update_student c db sid data)) sid = Some r'
      \<and> student_id r' = student_id r
      \<and> (py_contains data ''first_name'' \<noteq> Inr True \<longrightarrow> first_name r' = first_name r)
      \<and> (py_contains data ''last_name'' \<noteq> Inr True \<longrightarrow> last_name r' = last_name r)
      \<and> (py_contains data ''dob'' \<noteq> Inr True \<longrightarrow> dob r' = dob r)
      \<and> (py_contains data ''amount_due'' \<noteq> Inr True \<longrightarrow> amount_due r' = amount_due r)
      \<and> (status (snd (update_student c db sid data)) = 200 \<longrightarrow>
           snd (update_student c db sid data) =
             Json (JObj [(''message'', JStr ''Student updated!''), (''student'', to_dict r')]) 200)"
  proof (elim disjE exE conjE)
    assume "fst (update_student c db sid data) = db"
      and "status (snd (update_student c db sid data)) \<noteq> 200"
    then show ?thesis using assms by simp
  next
    fix obj row
    assume a: "assign_fields data (load r) = Inr obj" and f: "flush c sid obj = Inr row"
      and u: "update_student c db sid data =
               (map (\<lambda>x. if student_id x = sid then row else x) db,
                Json (JObj [(''message'', JStr ''Student updated!''),
                            (''student'', to_dict row)]) 200)"
    note fr = assign_fields_frame [OF a] and fl = flush_row [OF f]
    have q: "query_get (fst (update_student c db sid data)) sid = Some row"
      using query_get_replace [OF assms, of row] fl by (simp add: u)
    have 1: "py_contains data ''first_name'' \<noteq> Inr True \<longrightarrow> first_name row = first_name r"
      using fr fl by (auto simp: load_def)
    have 2: "py_contains data ''last_name'' \<noteq> Inr True \<longrightarrow> last_name row = last_name r"
      using fr fl by (auto simp: load_def)
    have 3: "py_contains data ''dob'' \<noteq> Inr True \<longrightarrow> dob row = dob r"
      using fr fl by (auto simp: load_def)
    have 4: "py_contains data ''amount_due'' \<noteq> Inr True \<longrightarrow> amount_due row = amount_due r"
      using fr fl by (auto simp: load_def)
    show ?thesis
      using q 1 2 3 4 fl sid by (intro exI [of _ row]) (simp add: u)
  qed
next
  fix x
  have sid: "student_id r = sid" using query_get_SomeD [OF assms] by simp
  have a: "assign_fields (JObj [(''amount_due'', JFloat x)]) (load r)
         = Inr ((load r)\<lparr>obj_amount_due := JFloat x\<rparr>)"
    by (simp add: assign_fields_def assign_if_present_def bindE_def set_amount_due_def)
  have f: "flush c sid ((load r)\<lparr>obj_amount_due := JFloat x\<rparr>) = Inr (r\<lparr>amount_due := x\<rparr>)"
    using sid by (simp add: flush_def load_def bindE_def)
  show u: "update_student c db sid (JObj [(''amount_due'', JFloat x)]) =
          (map (\<lambda>s. if student_id s = sid then r\<lparr>amount_due := x\<rparr> else s) db,
           Json (JObj [(''message'', JStr ''Student updated!''),
                       (''student'', to_dict (r\<lparr>amount_due := x\<rparr>))]) 200)"
    using assms a f by (simp add: update_student_def update_try_def update_commit_def bindE_def)
  show "query_get (fst (update_student c db sid (JObj [(''amount_due'', JFloat x)]))) sid =
            Some (r\<lparr>amount_due := x\<rparr>)"
    using query_get_replace [OF assms, of "r\<lparr>amount_due := x\<rparr>"] sid by (simp add: u)
qed

theorem update_keeps_omitted_fields_witness:
  "query_get [ada] 1 = Some ada
   \<and> update_student refusing [ada] 1 (JObj [(''amount_due'', JFloat 20)]) =
       ([ada\<lparr>amount_due := 20\<rparr>],
        Json (JObj [(''message'', JStr ''Student updated!''),
                    (''student'', to_dict (ada\<lparr>amount_due := 20\<rparr>))]) 200)
   \<and> py_contains (JObj [(''last_name'', JStr ''King'')]) ''first_name'' \<noteq> Inr True
   \<and> py_contains (JObj [(''last_name'', JStr ''King'')]) ''dob'' \<noteq> Inr True
   \<and> py_contains (JObj [(''last_name'', JStr ''King'')]) ''amount_due'' \<noteq> Inr True
   \<and> (\<exists>r'. query_get (fst (update_student refusing [ada] 1 (JObj [(''last_name'', JStr ''King'')]))) 1
               = Some r'
          \<and> student_id r' = 1 \<and> first_name r' = ''Ada'' \<and> dob r' = dob ada \<and> amount_due r' = 12)"
proof -
  have h: "query_get [ada] 1 = Some ada" by (simp add: query_get_def ada_def)
  have a: "student_id ada = 1" "first_name ada = ''Ada''" "amount_due ada = 12"
    by (simp_all add: ada_def)
  show ?thesis
    using h update_keeps_omitted_fields [OF h, of refusing "JObj [(''last_name'', JStr ''King'')]"]
    by (auto simp: a)
qed

section \<open>Dates that do not parse\<close>

text \<open>
  Claim C3. \<^verbatim>\<open>create_student\<close> and \<^verbatim>\<open>update_student\<close> parse the \<open>dob\<close> of the body
  with \<open>strptime\<close>. When the body of a create supplies the other three fields and a
  \<open>dob\<close> string that does not parse, the answer is \<open>InvalidDateFormat\<close> (400) and the
  table is unchanged. When the body of an update of an existing student supplies a
  \<open>dob\<close> string that does not parse, the answer is \<open>InvalidDateFormat\<close> (400) and
  the table is unchanged, so the stored record keeps all of its prior values, also
  those of the fields that the payload supplied. No invalid date enters the table:
  if every stored date is a valid date, it is so after any create and any update.
\<close>

theorem unparsable_dob_rejected:
  "(''first_name'' \<in> fst ` set kvs \<and> ''last_name'' \<in> fst ` set kvs \<and> ''amount_due'' \<in> fst ` set kvs
      \<and> py_getitem (JObj kvs) ''dob'' = Inr (JStr s) \<and> strptime s = None
      \<longrightarrow> create_student c db (JObj kvs) = (db, InvalidDateFormat))
   \<and> (sid \<in> student_id ` set db \<and> py_getitem (JObj kvs) ''dob'' = Inr (JStr s) \<and> strptime s = None
      \<longrightarrow> update_student c db sid (JObj kvs) = (db, InvalidDateFormat))
   \<and> status InvalidDateFormat = 400
   \<and> ((\<forall>r \<in> set db. valid_date (dob r)) \<longrightarrow>
        (\<forall>r \<in> set (fst (create_student c db data)). valid_date (dob r))
        \<and> (\<forall>r \<in> set (fst (update_student c db sid data)). valid_date (dob r)))"
proof (intro conjI impI)
  assume h: "''first_name'' \<in> fst ` set kvs \<and> ''last_name'' \<in> fst ` set kvs
      \<and> ''amount_due'' \<in> fst ` set kvs
      \<and> py_getitem (JObj kvs) ''dob'' = Inr (JStr s) \<and> strptime s = None"
  then have "''dob'' \<in> fst ` set kvs" and "kvs \<noteq> []"
    using getitem_contains [of kvs "''dob''" "JStr s"] by auto
  with h have m: "missing_required (JObj kvs) = Inr False"
    by (simp add: missing_required_def bindE_def)
  have "create_try c db (JObj kvs) = Inl ValueError"
    using h by (simp add: create_try_def bindE_def)
  with m show "create_student c db (JObj kvs) = (db, InvalidDateFormat)"
    by (simp add: create_student_def)
next
  assume h: "sid \<in> student_id ` set db \<and> py_getitem (JObj kvs) ''dob'' = Inr (JStr s)
      \<and> strptime s = None"
  then have "query_get db sid \<noteq> None" by (simp add: query_get_None_iff)
  then obtain r where r: "query_get db sid = Some r" by blast
  have d: "py_contains (JObj kvs) ''dob'' = Inr True" and t: "truthy (JObj kvs)"
    using h getitem_contains [of kvs "''dob''" "JStr s"] by auto
  have 1: "\<And>o0. \<exists>o1. assign_if_present (JObj kvs) ''first_name'' set_first_name o0 = Inr o1"
    by (rule assign_if_present_total) (simp add: set_first_name_def)
  have 2: "\<And>o0. \<exists>o1. assign_if_present (JObj kvs) ''last_name'' set_last_name o0 = Inr o1"
    by (rule assign_if_present_total) (simp add: set_last_name_def)
  have 3: "\<And>o0. assign_if_present (JObj kvs) ''dob'' set_dob o0 = Inl ValueError"
    using h d by (simp add: assign_if_present_def bindE_def set_dob_def)
  obtain o1 where o1: "assign_if_present (JObj kvs) ''first_name'' set_first_name (load r) = Inr o1"
    using 1 by blast
  obtain o2 where o2: "assign_if_present (JObj kvs) ''last_name'' set_last_name o1 = Inr o2"
    using 2 by blast
  have "assign_fields (JObj kvs) (load r) = Inl ValueError"
    by (simp add: assign_fields_def o1 o2 3 bindE_def)
  then show "update_student c db sid (JObj kvs) = (db, InvalidDateFormat)"
    using r t by (simp add: update_student_def update_try_def bindE_def)
next
  show "status InvalidDateFormat = 400" by (simp add: InvalidDateFormat_def)
next
  assume v: "\<forall>r \<in> set db. valid_date (dob r)"
  from create_student_cases [of c db data]
  show "\<forall>r \<in> set (fst (create_student c db data)). valid_date (dob r)"
    using v by auto
next
  assume v: "\<forall>r \<in> set db. valid_date (dob r)"
  show "\<forall>r \<in> set (fst (update_student c db sid data)). valid_date (dob r)"
  proof (cases "query_get db sid")
    case None
    then show ?thesis using v by (simp add: update_student_def)
  next
    case (Some r)
    then have vr: "valid_date (dob r)" using v query_get_SomeD by blast
    from update_student_cases [OF Some, of c data] show ?thesis
    proof (elim disjE exE conjE)
      assume "fst (update_student c db sid data) = db"
      then show ?thesis using v by simp
    next
      fix obj row
      assume a: "assign_fields data (load r) = Inr obj" and f: "flush c sid obj = Inr row"
        and u: "update_student c db sid data =
               (map (\<lambda>x. if student_id x = sid then row else x) db,
                Json (JObj [(''message'', JStr ''Student updated!''),
                            (''student'', to_dict row)]) 200)"
      have "valid_date (dob row)"
        using assign_fields_frame [OF a] flush_row [OF f] vr by (simp add: load_def)
      then show ?thesis using v by (auto simp: u)
    qed
  qed
qed

theorem unparsable_dob_rejected_witness:
  "(''first_name'' \<in> fst ` set bad_date_body \<and> ''last_name'' \<in> fst ` set bad_date_body
      \<and> ''amount_due'' \<in> fst ` set bad_date_body
      \<and> py_getitem (JObj bad_date_body) ''dob'' = Inr (JStr ''13-99-9999'')
      \<and> strptime ''13-99-9999'' = None
      \<and> create_student refusing [ada] (JObj bad_date_body) = ([ada], InvalidDateFormat))
   \<and> (1 \<in> student_id ` set [ada]
      \<and> py_getitem (JObj bad_date_update) ''dob'' = Inr (JStr ''13-99-9999'')
      \<and> update_student refusing [ada] 1 (JObj bad_date_update) = ([ada], InvalidDateFormat))
   \<and> (list_all (\<lambda>r. valid_date (dob r)) [ada]
      \<and> list_all (\<lambda>r. valid_date (dob r)) (fst (create_student refusing [ada] (JObj bad_date_body)))
      \<and> list_all (\<lambda>r. valid_date (dob r))
           (fst (update_student refusing [ada] 1 (JObj bad_date_update))))"
proof -
  have p: "strptime ''13-99-9999'' = None" by (simp add: strptime_eval)
  have v: "\<forall>r \<in> set [ada]. valid_date (dob r)"
    by (simp add: ada_def valid_date_def days_in_month_def)
  have c: "''first_name'' \<in> fst ` set bad_date_body \<and> ''last_name'' \<in> fst ` set bad_date_body
      \<and> ''amount_due'' \<in> fst ` set bad_date_body
      \<and> py_getitem (JObj bad_date_body) ''dob'' = Inr (JStr ''13-99-9999'')"
    by (simp add: bad_date_body_def)
  have u: "1 \<in> student_id ` set [ada]
      \<and> py_getitem (JObj bad_date_update) ''dob'' = Inr (JStr ''13-99-9999'')"
    by (simp add: bad_date_update_def ada_def)
  note t1 = unparsable_dob_rejected
      [of bad_date_body "''13-99-9999''" refusing "[ada]" 1 "JObj bad_date_body"]
  note t2 = unparsable_dob_rejected
      [of bad_date_update "''13-99-9999''" refusing "[ada]" 1 "JObj bad_date_update"]
  have r1: "create_student refusing [ada] (JObj bad_date_body) = ([ada], InvalidDateFormat)"
    using t1 c p by blast
  have r2: "update_student refusing [ada] 1 (JObj bad_date_update) = ([ada], InvalidDateFormat)"
    using t2 u p by blast
  have r3: "\<forall>r \<in> set (fst (create_student refusing [ada] (JObj bad_date_body))). valid_date (dob r)"
    using t1 v by blast
  have r4: "\<forall>r \<in> set (fst (update_student refusing [ada] 1 (JObj bad_date_update))). valid_date (dob r)"
    using t2 v by blast
  show ?thesis
    using p c u r1 r2 v r3 r4 unfolding list_all_iff by blast
qed

section \<open>Create: the required fields\<close>




section \<open>Upload: the rejected requests\<close>

text \<open>
  Claim C6. \<^verbatim>\<open>upload_file\<close> answers \<open>NoFilePart\<close> (400) when the request has no
  field \<open>file\<close>, and \<open>NoFilename\<close> (400) when the field is there with an empty file
  name. For a file with a name, it answers \<open>InvalidFileType\<close> (400) exactly when
  the name cannot be split as \<open>stem.ext\<close> with no dot in \<open>ext\<close> and the lower-case
  form of \<open>ext\<close> among \<open>png\<close>, \<open>jpg\<close>, \<open>jpeg\<close>, \<open>gif\<close>; a name without any dot is
  such a name. \<open>photo.png\<close> is accepted (and answered 200 when the file can be
  written), \<open>photo.exe\<close> is rejected.
\<close>

theorem upload_rejections:
  "(''file'' \<notin> fst ` set request_files \<longrightarrow> upload_file fs request_files = (fs, NoFilePart))
   \<and> (map_of request_files ''file'' = Some file \<and> filename file = [] \<longrightarrow>
        upload_file fs request_files = (fs, NoFilename))
   \<and> (map_of request_files ''file'' = Some file \<and> filename file \<noteq> [] \<longrightarrow>
        (snd (upload_file fs request_files) = InvalidFileType) =
        (\<not> (\<exists>stem ext. filename file = stem @ ''.'' @ ext \<and> CHR ''.'' \<notin> set ext
               \<and> lower ext \<in> {''png'', ''jpg'', ''jpeg'', ''gif''})))
   \<and> (map_of request_files ''file'' = Some file \<and> filename file \<noteq> []
        \<and> CHR ''.'' \<notin> set (filename file) \<longrightarrow>
        upload_file fs request_files = (fs, InvalidFileType))
   \<and> status NoFilePart = 400 \<and> status NoFilename = 400 \<and> status InvalidFileType = 400
   \<and> snd (upload_file fs [(''file'', \<lparr>filename = ''photo.png'', stream = bytes\<rparr>)]) \<noteq> InvalidFileType
   \<and> (can_open fs ''uploads/photo.png'' \<longrightarrow>
        status (snd (upload_file fs [(''file'', \<lparr>filename = ''photo.png'', stream = bytes\<rparr>)])) = 200)
   \<and> upload_file fs [(''file'', \<lparr>filename = ''photo.exe'', stream = bytes\<rparr>)] = (fs, InvalidFileType)"
proof (intro conjI impI)
  assume "''file'' \<notin> fst ` set request_files"
  then have "map_of request_files ''file'' = None" by (simp add: map_of_eq_None_iff)
  then show "upload_file fs request_files = (fs, NoFilePart)" by (simp add: upload_file_def)
next
  assume "map_of request_files ''file'' = Some file \<and> filename file = []"
  then show "upload_file fs request_files = (fs, NoFilename)" by (simp add: upload_file_def)
next
  assume h: "map_of request_files ''file'' = Some file \<and> filename file \<noteq> []"
  show "(snd (upload_file fs request_files) = InvalidFileType) =
        (\<not> (\<exists>stem ext. filename file = stem @ ''.'' @ ext \<and> CHR ''.'' \<notin> set ext
               \<and> lower ext \<in> {''png'', ''jpg'', ''jpeg'', ''gif''}))"
    using upload_file_present [OF h [THEN conjunct1] h [THEN conjunct2], where fs = fs]
    by (simp only: allowed_file_iff)
next
  assume "map_of request_files ''file'' = Some file \<and> filename file \<noteq> []
        \<and> CHR ''.'' \<notin> set (filename file)"
  then show "upload_file fs request_files = (fs, InvalidFileType)"
    by (simp add: upload_file_def allowed_file_def)
next
  show "snd (upload_file fs [(''file'', \<lparr>filename = ''photo.png'', stream = bytes\<rparr>)]) \<noteq> InvalidFileType"
    using upload_file_present [where request_files = "[(''file'', \<lparr>filename = ''photo.png'', stream = bytes\<rparr>)]"
        and f = "\<lparr>filename = ''photo.png'', stream = bytes\<rparr>" and fs = fs] allowed_photo_png
    by simp
next
  assume "can_open fs ''uploads/photo.png''"
  then show "status (snd (upload_file fs [(''file'', \<lparr>filename = ''photo.png'', stream = bytes\<rparr>)])) = 200"
    using allowed_photo_png by (simp add: upload_file_def os_path_join_def file_save_def)
next
  show "upload_file fs [(''file'', \<lparr>filename = ''photo.exe'', stream = bytes\<rparr>)] = (fs, InvalidFileType)"
    using not_allowed_photo_exe by (simp add: upload_file_def)
qed (simp_all add: NoFilePart_def NoFilename_def InvalidFileType_def)

theorem upload_rejections_witness:
  "(''file'' \<notin> fst ` set [(''avatar'', \<lparr>filename = ''a.png'', stream = ''x''\<rparr>)]
      \<and> upload_file open_disk [(''avatar'', \<lparr>filename = ''a.png'', stream = ''x''\<rparr>)]
          = (open_disk, NoFilePart))
   \<and> upload_file open_disk [(''file'', \<lparr>filename = '''', stream = ''''\<rparr>)] = (open_disk, NoFilename)
   \<and> upload_file open_disk [(''file'', \<lparr>filename = ''README'', stream = ''x''\<rparr>)]
        = (open_disk, InvalidFileType)
   \<and> can_open open_disk ''uploads/photo.png''
   \<and> status (snd (upload_file open_disk [(''file'', \<lparr>filename = ''photo.png'', stream = ''x''\<rparr>)])) = 200
   \<and> (snd (upload_file open_disk [(''file'', \<lparr>filename = ''Scan.JPEG'', stream = ''x''\<rparr>)])
         = InvalidFileType)
      = (\<not> (\<exists>stem ext. ''Scan.JPEG'' = stem @ ''.'' @ ext \<and> CHR ''.'' \<notin> set ext
               \<and> lower ext \<in> {''png'', ''jpg'', ''jpeg'', ''gif''}))"
proof -
  note t1 = upload_rejections [of "[(''avatar'', \<lparr>filename = ''a.png'', stream = ''x''\<rparr>)]"
      open_disk "\<lparr>filename = ''a.png'', stream = ''x''\<rparr>" "''x''"]
  note t2 = upload_rejections [of "[(''file'', \<lparr>filename = '''', stream = ''''\<rparr>)]"
      open_disk "\<lparr>filename = '''', stream = ''''\<rparr>" "''x''"]
  note t3 = upload_rejections [of "[(''file'', \<lparr>filename = ''README'', stream = ''x''\<rparr>)]"
      open_disk "\<lparr>filename = ''README'', stream = ''x''\<rparr>" "''x''"]
  note t4 = upload_rejections [of "[(''file'', \<lparr>filename = ''Scan.JPEG'', stream = ''x''\<rparr>)]"
      open_disk "\<lparr>filename = ''Scan.JPEG'', stream = ''x''\<rparr>" "''x''"]
  have h1: "''file'' \<notin> fst ` set [(''avatar'', \<lparr>filename = ''a.png'', stream = ''x''\<rparr>)]"
    by simp
  have r1: "upload_file open_disk [(''avatar'', \<lparr>filename = ''a.png'', stream = ''x''\<rparr>)]
          = (open_disk, NoFilePart)"
    using t1 [THEN conjunct1] h1 by (rule mp)
  have r2: "upload_file open_disk [(''file'', \<lparr>filename = '''', stream = ''''\<rparr>)] = (open_disk, NoFilename)"
    using t2 [THEN conjunct2, THEN conjunct1] by simp
  have r3: "upload_file open_disk [(''file'', \<lparr>filename = ''README'', stream = ''x''\<rparr>)]
        = (open_disk, InvalidFileType)"
    using t3 [THEN conjunct2, THEN conjunct2, THEN conjunct2, THEN conjunct1] by simp
  have h5: "can_open open_disk ''uploads/photo.png''" by (simp add: open_disk_def)
  have r5: "status (snd (upload_file open_disk [(''file'', \<lparr>filename = ''photo.png'', stream = ''x''\<rparr>)])) = 200"
    using t1 [THEN conjunct2, THEN conjunct2, THEN conjunct2, THEN conjunct2, THEN conjunct2,
        THEN conjunct2, THEN conjunct2, THEN conjunct2, THEN conjunct1] h5 by (rule mp)
  have r4: "(snd (upload_file open_disk [(''file'', \<lparr>filename = ''Scan.JPEG'', stream = ''x''\<rparr>)])
         = InvalidFileType)
      = (\<not> (\<exists>stem ext. ''Scan.JPEG'' = stem @ ''.'' @ ext \<and> CHR ''.'' \<notin> set ext
               \<and> lower ext \<in> {''png'', ''jpg'', ''jpeg'', ''gif''}))"
    using t4 [THEN conjunct2, THEN conjunct2, THEN conjunct1] by simp
  show ?thesis
    using h1 r1 r2 r3 h5 r5 r4 by blast
qed

section \<open>Upload: the path that is written\<close>

text \<open>
  Claim C9 says that every accepted upload is written under the directory
  \<open>uploads\<close>. \<^verbatim>\<open>os.path.join\<close> drops \<open>uploads\<close> when the name that the client sent
  starts with a slash: the upload below is accepted, answered 200, and written to
  \<open>/tmp/evil.png\<close>, a path that is not under \<open>uploads/\<close>.
\<close>

theorem upload_writes_outside_uploads:
  "upload_file open_disk [(''file'', \<lparr>filename = ''/tmp/evil.png'', stream = ''x''\<rparr>)]
     = (open_disk\<lparr>files := (files open_disk)(''/tmp/evil.png'' \<mapsto> ''x'')\<rparr>,
        Json (message ''File uploaded successfully'') 200)
   \<and> os_path_join ''uploads'' ''/tmp/evil.png'' = ''/tmp/evil.png''
   \<and> take 8 (os_path_join ''uploads'' ''/tmp/evil.png'') \<noteq> ''uploads/''"
  by (simp add: upload_file_def allowed_file_def rsplit1_def lower_def lower_char_def
      ALLOWED_EXTENSIONS_def os_path_join_def file_save_def open_disk_def)

section \<open>The invariants of the data model\<close>

text \<open>
  Claim C7, as the code has it. The empty table satisfies the invariants, and every
  operation preserves them: the identifiers of the rows are pairwise distinct and
  every stored date is a valid date. Identifiers are stable: a create keeps the
  existing rows as they are and adds at most one, an update leaves the list of
  identifiers as it is, a delete removes the rows of the identifier and nothing else.
  A record that \<^verbatim>\<open>get_student\<close> can read has all five fields with their types: an
  integer identifier, two strings, the ISO form of a valid date and a float. The
  names are text, and they may be empty.
\<close>

theorem store_invariant_preserved:
  "store_invariant []
   \<and> (store_invariant db \<longrightarrow>
        store_invariant (fst (create_student c db data))
        \<and> store_invariant (fst (update_student c db sid data))
        \<and> store_invariant (fst (delete_student db sid))
        \<and> (\<exists>new. fst (create_student c db data) = db @ new \<and> length new \<le> 1)
        \<and> map student_id (fst (update_student c db sid data)) = map student_id db
        \<and> fst (delete_student db sid) = filter (\<lambda>r. student_id r \<noteq> sid) db
        \<and> (get_student db i = NotFound
            \<or> (\<exists>r \<in> set db. student_id r = i \<and> valid_date (dob r)
                  \<and> get_student db i =
                      Json (JObj [(''student'',
                                   JObj [(''student_id'', JInt i),
                                         (''first_name'', JStr (first_name r)),
                                         (''last_name'', JStr (last_name r)),
                                         (''dob'', JStr (isoformat (dob r))),
                                         (''amount_due'', JFloat (amount_due r))])]) 200)))"
proof (intro conjI impI)
  show "store_invariant []" by (simp add: store_invariant_def primary_key_def)
next
  assume s: "store_invariant db"
  show "store_invariant (fst (create_student c db data))"
    using create_preserves_invariant [OF s] by blast
  show "\<exists>new. fst (create_student c db data) = db @ new \<and> length new \<le> 1"
    using create_preserves_invariant [OF s] by blast
  show "store_invariant (fst (update_student c db sid data))"
    using update_preserves_invariant [OF s] by blast
  show "map student_id (fst (update_student c db sid data)) = map student_id db"
    using update_preserves_invariant [OF s] by blast
  show "store_invariant (fst (delete_student db sid))"
    by (rule delete_preserves_invariant [OF s])
  show "fst (delete_student db sid) = filter (\<lambda>r. student_id r \<noteq> sid) db"
    by (rule delete_student_table)
  show "get_student db i = NotFound
            \<or> (\<exists>r \<in> set db. student_id r = i \<and> valid_date (dob r)
                  \<and> get_student db i =
                      Json (JObj [(''student'',
                                   JObj [(''student_id'', JInt i),
                                         (''first_name'', JStr (first_name r)),
                                         (''last_name'', JStr (last_name r)),
                                         (''dob'', JStr (isoformat (dob r))),
                                         (''amount_due'', JFloat (amount_due r))])]) 200)"
    using get_student_readable [of db i] s by (auto simp: store_invariant_def)
qed

theorem store_invariant_preserved_witness:
  "store_invariant [ada]
   \<and> store_invariant (fst (create_student refusing [ada] (JObj grace_body)))
   \<and> store_invariant (fst (update_student refusing [ada] 1 (JObj grace_body)))
   \<and> store_invariant (fst (delete_student [ada] 1))
   \<and> map student_id (fst (update_student refusing [ada] 1 (JObj grace_body))) = map student_id [ada]
   \<and> fst (delete_student [ada] 1) = filter (\<lambda>r. student_id r \<noteq> 1) [ada]"
proof -
  note t = store_invariant_preserved [of "[ada]" refusing "JObj grace_body" 1 1,
      THEN conjunct2, THEN mp, OF store_invariant_ada]
  show ?thesis
    using store_invariant_ada t by blast
qed

text \<open>
  The claim as the specification states it fails in its last part: nothing tests that
  \<open>first_name\<close> and \<open>last_name\<close> are not empty, so the body below creates a readable
  record whose names are empty.
\<close>

theorem empty_name_is_stored:
  "create_student refusing [] (JObj empty_name_body) =
     ([nameless], Json (JObj [(''message'', JStr ''Student created!''),
                              (''student'', to_dict nameless)]) 201)
   \<and> get_student [nameless] 1 = Json (JObj [(''student'', to_dict nameless)]) 200
   \<and> first_name nameless = [] \<and> last_name nameless = []"
  by (simp add: empty_name_body_def nameless_def missing_required_JObj create_student_def
      create_try_def bindE_def strptime_turing add_commit_def flush_def next_id_def
      get_student_def query_get_def)

section \<open>List\<close>

text \<open>
  Claim C5, as the code has it. \<^verbatim>\<open>get_students\<close> always answers 200 with one entry
  for every stored record, in the order of the table, and with the empty sequence
  when there is none. After \<open>N\<close> successful creations on an empty table the listing
  has exactly \<open>N\<close> entries (and \<open>N\<close> more than before on any table). When the \<open>N\<close>
  bodies supply names, a \<open>dob\<close> string that parses and a number that \<^verbatim>\<open>float\<close>
  converts, all \<open>N\<close> creations succeed and the \<open>N\<close> new entries are, without their
  identifiers, the bodies as supplied, with the date in its zero-padded form and the
  amount as the double nearest to the number. The date comes back as the very
  string that was supplied when that string has the shape \<open>dddd-dd-dd\<close>, and the
  amount as the very number when it was supplied as a float or as an integer below
  \<open>2\<^sup>5\<^sup>3\<close> in magnitude.
\<close>

theorem list_round_trip:
  "get_students db = Json (JObj [(''students'', JArr (map to_dict db))]) 200
   \<and> get_students [] = Json (JObj [(''students'', JArr [])]) 200
   \<and> (list_all (\<lambda>r. status r = 201) (snd (create_many c db bodies)) \<longrightarrow>
        (\<exists>entries. get_students (fst (create_many c db bodies))
                      = Json (JObj [(''students'', JArr entries)]) 200
           \<and> length entries = length db + length bodies))
   \<and> ((\<forall>x \<in> set xs. well_typed_input x) \<longrightarrow>
        list_all (\<lambda>r. status r = 201) (snd (create_many c db (map supplied_body xs)))
        \<and> (\<exists>entries. get_students (fst (create_many c db (map supplied_body xs)))
                        = Json (JObj [(''students'', JArr (map to_dict db @ entries))]) 200
             \<and> length entries = length xs
             \<and> map without_id entries = map returned_body xs))
   \<and> (iso_shaped d \<and> strptime d \<noteq> None \<longrightarrow>
        returned_body (fname, lname, d, JFloat a) = supplied_body (fname, lname, d, JFloat a))
   \<and> (iso_shaped d \<and> strptime d \<noteq> None \<and> \<bar>i\<bar> < 2 ^ 53 \<longrightarrow>
        returned_body (fname, lname, d, JInt i)
          = supplied_body (fname, lname, d, JFloat (of_int i)))
   \<and> (list_all (\<lambda>r. status r = 201) (snd (create_many c [] bodies)) \<longrightarrow>
        (\<exists>entries. get_students (fst (create_many c [] bodies))
                      = Json (JObj [(''students'', JArr entries)]) 200
           \<and> length entries = length bodies))"
proof (intro conjI impI)
  show "get_students db = Json (JObj [(''students'', JArr (map to_dict db))]) 200"
    by (simp add: get_students_def)
  show "get_students [] = Json (JObj [(''students'', JArr [])]) 200"
    by (simp add: get_students_def)
next
  assume "list_all (\<lambda>r. status r = 201) (snd (create_many c db bodies))"
  then have "length (fst (create_many c db bodies)) = length db + length bodies"
    by (rule create_many_length)
  then show "\<exists>entries. get_students (fst (create_many c db bodies))
                      = Json (JObj [(''students'', JArr entries)]) 200
           \<and> length entries = length db + length bodies"
    by (simp add: get_students_def)
next
  assume w: "\<forall>x \<in> set xs. well_typed_input x"
  from create_many_typed [OF w, of c db] obtain rows where
    f: "fst (create_many c db (map supplied_body xs)) = db @ rows"
    and s: "list_all (\<lambda>r. status r = 201) (snd (create_many c db (map supplied_body xs)))"
    and m: "map (\<lambda>r. without_id (to_dict r)) rows = map returned_body xs"
    by blast
  show "list_all (\<lambda>r. status r = 201) (snd (create_many c db (map supplied_body xs)))"
    by (rule s)
  have l: "length rows = length xs" using m by (metis length_map)
  show "\<exists>entries. get_students (fst (create_many c db (map supplied_body xs)))
                        = Json (JObj [(''students'', JArr (map to_dict db @ entries))]) 200
             \<and> length entries = length xs
             \<and> map without_id entries = map returned_body xs"
    using m l by (intro exI [of _ "map to_dict rows"]) (simp add: get_students_def f comp_def)
next
  assume "iso_shaped d \<and> strptime d \<noteq> None"
  then obtain dt where i: "iso_shaped d" and p: "strptime d = Some dt" by auto
  have "isoformat dt = d" using i p by (rule isoformat_strptime)
  then show "returned_body (fname, lname, d, JFloat a) = supplied_body (fname, lname, d, JFloat a)"
    by (simp add: returned_body_def supplied_body_def p)
next
  assume a: "iso_shaped d \<and> strptime d \<noteq> None \<and> \<bar>i\<bar> < 2 ^ 53"
  then obtain dt where i: "iso_shaped d" and p: "strptime d = Some dt" by auto
  have iso: "isoformat dt = d" using i p by (rule isoformat_strptime)
  have "\<bar>i\<bar> < 2 ^ 53" using a by blast
  then have "float_value (JInt i) = Some (of_int i)"
    by (rule float_value_small)
  with iso show "returned_body (fname, lname, d, JInt i)
          = supplied_body (fname, lname, d, JFloat (of_int i))"
    by (simp add: returned_body_def supplied_body_def p del: float_value.simps)
next
  assume "list_all (\<lambda>r. status r = 201) (snd (create_many c [] bodies))"
  then have "length (fst (create_many c [] bodies)) = length ([] :: table) + length bodies"
    by (rule create_many_length)
  then show "\<exists>entries. get_students (fst (create_many c [] bodies))
                      = Json (JObj [(''students'', JArr entries)]) 200
           \<and> length entries = length bodies"
    by (simp add: get_students_def)
qed

theorem list_round_trip_witness:
  "list_all well_typed_input two_students
   \<and> list_all (\<lambda>r. status r = 201) (snd (create_many refusing [] (map supplied_body two_students)))
   \<and> (\<exists>entries. get_students (fst (create_many refusing [] (map supplied_body two_students)))
                   = Json (JObj [(''students'', JArr entries)]) 200
         \<and> length entries = 2
         \<and> map without_id entries = map returned_body two_students)
   \<and> iso_shaped ''1906-12-09'' \<and> strptime ''1906-12-09'' \<noteq> None
   \<and> returned_body (''Grace'', ''Hopper'', ''1906-12-09'', JFloat 7)
       = supplied_body (''Grace'', ''Hopper'', ''1906-12-09'', JFloat 7)
   \<and> iso_shaped ''1912-06-23'' \<and> strptime ''1912-06-23'' \<noteq> None \<and> \<bar>3 :: int\<bar> < 2 ^ 53
   \<and> returned_body (''Alan'', ''Turing'', ''1912-06-23'', JInt 3)
       = supplied_body (''Alan'', ''Turing'', ''1912-06-23'', JFloat 3)"
proof -
  have p3: "py_float 3 = Inr 3"
    using py_float_exact [of 3] by simp
  have w: "\<forall>x \<in> set two_students. well_typed_input x"
    by (simp add: two_students_def well_typed_input_def strptime_hopper strptime_turing p3)
  have i: "iso_shaped ''1906-12-09'' \<and> strptime ''1906-12-09'' \<noteq> None"
    by (simp add: iso_shaped_def is_digit_def strptime_hopper)
  have j: "iso_shaped ''1912-06-23'' \<and> strptime ''1912-06-23'' \<noteq> None \<and> \<bar>3 :: int\<bar> < 2 ^ 53"
    by (simp add: iso_shaped_def is_digit_def strptime_turing)
  note t = list_round_trip [of "[]" refusing "[]" two_students "''1906-12-09''"
      "''Grace''" "''Hopper''" 7 3]
  note u = list_round_trip [of "[]" refusing "[]" two_students "''1912-06-23''"
      "''Alan''" "''Turing''" 7 3]
  note t4 = t [THEN conjunct2, THEN conjunct2, THEN conjunct2, THEN conjunct1, THEN mp, OF w]
  note t5 = t [THEN conjunct2, THEN conjunct2, THEN conjunct2, THEN conjunct2, THEN conjunct1,
      THEN mp, OF i]
  note u6 = u [THEN conjunct2, THEN conjunct2, THEN conjunct2, THEN conjunct2, THEN conjunct2,
      THEN conjunct1, THEN mp, OF j]
  have l: "length two_students = 2" by (simp add: two_students_def)
  have e: "\<exists>entries. get_students (fst (create_many refusing [] (map supplied_body two_students)))
                   = Json (JObj [(''students'', JArr entries)]) 200
         \<and> length entries = 2
         \<and> map without_id entries = map returned_body two_students"
    using t4 [THEN conjunct2] by (simp add: l)
  have u6': "returned_body (''Alan'', ''Turing'', ''1912-06-23'', JInt 3)
       = supplied_body (''Alan'', ''Turing'', ''1912-06-23'', JFloat 3)"
    using u6 by simp
  show ?thesis
    using w i j t4 [THEN conjunct1] e t5 u6' by (simp only: list_all_iff simp_thms)
qed

text \<open>
  The claim as the specification states it fails for a date that \<open>strptime\<close>
  accepts without its leading zeros and for an integer amount that is not a double:
  the record is created, and the listing returns \<open>2000-01-05\<close> for the \<open>2000-1-5\<close>
  that was supplied and \<open>9007199254740992\<close> for the \<open>9007199254740993\<close>.
\<close>

theorem lenient_dob_not_round_tripped:
  "create_student refusing []
     (student_body ''Ada'' ''Lovelace'' ''2000-1-5'' (JInt 9007199254740993)) =
     ([short_date_row], Json (JObj [(''message'', JStr ''Student created!''),
                                    (''student'', to_dict short_date_row)]) 201)
   \<and> get_students [short_date_row] =
       Json (JObj [(''students'',
                    JArr [JObj [(''student_id'', JInt 1), (''first_name'', JStr ''Ada''),
                                (''last_name'', JStr ''Lovelace''), (''dob'', JStr ''2000-01-05''),
                                (''amount_due'', JFloat 9007199254740992)]])]) 200
   \<and> ''2000-01-05'' \<noteq> ''2000-1-5''
   \<and> (9007199254740992 :: real) \<noteq> 9007199254740993"
proof -
  have "isoformat \<lparr>year = 2000, month = 1, day = 5\<rparr> = ''2000-01-05''"
    by (simp add: isoformat_def zero_pad_def decimal.simps digit_char_def)
  then have g: "get_students [short_date_row] =
       Json (JObj [(''students'',
                    JArr [JObj [(''student_id'', JInt 1), (''first_name'', JStr ''Ada''),
                                (''last_name'', JStr ''Lovelace''), (''dob'', JStr ''2000-01-05''),
                                (''amount_due'', JFloat 9007199254740992)]])]) 200"
    by (simp add: get_students_def to_dict_def short_date_row_def)
  have "create_student refusing []
     (student_body ''Ada'' ''Lovelace'' ''2000-1-5'' (JInt 9007199254740993)) =
     ([short_date_row], Json (JObj [(''message'', JStr ''Student created!''),
                                    (''student'', to_dict short_date_row)]) 201)"
    using create_typed [OF strptime_short float_value_rounds, of refusing "[]" "''Ada''" "''Lovelace''"]
    by (simp add: next_id_def short_date_row_def)
  then show ?thesis using g by simp
qed

end
